theory Spec2Isabelle
  imports Main
begin

section \<open>Strings and paths\<close>

text \<open>
  The two hook scripts of the repository (the post-commit script and the pre-commit
  script, both in \<^verbatim>\<open>src/scripts/post-commit-llm-readme.ts\<close>) work on JavaScript
  strings. A string is modelled as a \<^typ>\<open>string\<close>, one \<^typ>\<open>char\<close> per code unit.
  Paths follow Node's POSIX flavour of the \<^verbatim>\<open>path\<close> module: the only separator
  \<^verbatim>\<open>path.dirname\<close> knows is the slash.
\<close>

abbreviation slash :: char where
  "slash \<equiv> CHR ''/''"

abbreviation backslash :: char where
  "backslash \<equiv> CHR 0x5C"

abbreviation hyphen :: char where
  "hyphen \<equiv> CHR ''-''"

abbreviation dot :: char where
  "dot \<equiv> CHR ''.''"

text \<open>\<^verbatim>\<open>s.startsWith(p)\<close>, \<^verbatim>\<open>s.endsWith(p)\<close> and \<^verbatim>\<open>s.includes(p)\<close>.\<close>

definition startsWith :: "string \<Rightarrow> string \<Rightarrow> bool" where
  "startsWith s p = (take (length p) s = p)"

definition endsWith :: "string \<Rightarrow> string \<Rightarrow> bool" where
  "endsWith s p = (length p \<le> length s \<and> drop (length s - length p) s = p)"

fun includes_str :: "string \<Rightarrow> string \<Rightarrow> bool" where
  "includes_str [] p = (p = [])"
| "includes_str (c # cs) p = (startsWith (c # cs) p \<or> includes_str cs p)"

text \<open>
  Node's \<^verbatim>\<open>path.posix.dirname\<close>. Its loop runs \<^verbatim>\<open>i\<close> from the last index down
  to 1 with the flag \<^verbatim>\<open>matchedSlash\<close>, and stops at the first slash that follows
  (from the right) a character that is not a slash; \<open>dirname_scan\<close> is that loop over the
  characters at the indices \<open>i, i - 1, \<dots>, 1\<close>, and returns \<^verbatim>\<open>end\<close>
  (\<open>None\<close> for \<^verbatim>\<open>-1\<close>).
\<close>

fun dirname_scan :: "string \<Rightarrow> bool \<Rightarrow> nat option" where
  "dirname_scan [] matchedSlash = None"
| "dirname_scan (c # cs) matchedSlash =
     (if c = slash then
        (if \<not> matchedSlash then Some (Suc (length cs)) else dirname_scan cs matchedSlash)
      else dirname_scan cs False)"

definition dirname :: "string \<Rightarrow> string" where
  "dirname p =
     (if p = [] then ''.''
      else
        let hasRoot = (hd p = slash) in
        case dirname_scan (rev (tl p)) True of
          None \<Rightarrow> (if hasRoot then ''/'' else ''.'')
        | Some e \<Rightarrow> (if hasRoot \<and> e = 1 then ''//'' else take e p))"

section \<open>PathTransformer: \<^verbatim>\<open>transformPathToFilename\<close>\<close>

text \<open>
  \<^verbatim>\<open>dirPath.replace(/^[.\\/]+/, '')\<close> drops the longest prefix made of dots, backslashes
  and slashes; \<^verbatim>\<open>dirPath.replace(/[\\/]+/g, '-')\<close> puts one hyphen in place of every
  maximal run of backslashes and slashes.
\<close>

definition is_lead :: "char \<Rightarrow> bool" where
  "is_lead c = (c = dot \<or> c = backslash \<or> c = slash)"

definition is_sep :: "char \<Rightarrow> bool" where
  "is_sep c = (c = backslash \<or> c = slash)"

function replace_seps :: "string \<Rightarrow> string" where
  "replace_seps [] = []"
| "replace_seps (c # cs) =
     (if is_sep c then hyphen # replace_seps (dropWhile is_sep cs)
      else c # replace_seps cs)"
  by pat_completeness auto
termination
  by (relation "measure length") (auto simp: length_dropWhile_le less_Suc_eq_le)

text \<open>The test \<^verbatim>\<open>/^(src|test|docs|tools|types)$/\<close>.\<close>

definition conventional :: "string \<Rightarrow> bool" where
  "conventional t =
     (t = ''src'' \<or> t = ''test'' \<or> t = ''docs'' \<or> t = ''tools'' \<or> t = ''types'')"

definition transformPathToFilename :: "string \<Rightarrow> string" where
  "transformPathToFilename filePath =
     (let dirPath = dirname filePath in
      if dirPath = ''.'' \<or> dirPath = [] then ''project-root.json''
      else
        let normalized = replace_seps (dropWhile is_lead dirPath) in
        if conventional normalized then normalized @ ''-root.json''
        else normalized @ ''.json'')"

text \<open>
  Three notions to speak about the transform: the token it flattens a directory path to
  (\<^verbatim>\<open>normalized\<close> in the source), the path made of given segments, and a segment
  free of slashes, backslashes and hyphens.
\<close>

definition flattened :: "string \<Rightarrow> string" where
  "flattened dirPath = replace_seps (dropWhile is_lead dirPath)"

fun join_path :: "string list \<Rightarrow> string" where
  "join_path [] = []"
| "join_path [s] = s"
| "join_path (s # t # ss) = s @ ''/'' @ join_path (t # ss)"

definition plain_segment :: "string \<Rightarrow> bool" where
  "plain_segment s = (s \<noteq> [] \<and> slash \<notin> set s \<and> backslash \<notin> set s \<and> hyphen \<notin> set s)"

section \<open>CommandRunner: \<^verbatim>\<open>executeCommand\<close>\<close>

text \<open>
  What the scripts do to the outside world is recorded in a trace: every \<^verbatim>\<open>execSync\<close>
  call with its command and timeout, every busy-wait with its length in milliseconds,
  every call of the logger's \<^verbatim>\<open>warn\<close>, \<^verbatim>\<open>error\<close> and \<^verbatim>\<open>success\<close>, every
  call of \<^verbatim>\<open>cleanupMetadata\<close> and every \<^verbatim>\<open>process.exit\<close> with its status. The
  logger's other levels only print, and are left out.
\<close>

datatype level = WARN | ERROR | SUCCESS

datatype action =
  Exec string nat
| Sleep nat
| Log level
| CleanupMetadata
| Exit nat

text \<open>
  One \<^verbatim>\<open>execSync\<close> call either returns the captured output or throws an error
  object with a \<^verbatim>\<open>code\<close> and a \<^verbatim>\<open>message\<close>.
\<close>

datatype exec_error = ExecError (err_code: string) (err_message: string)

datatype exec_result = Completed string | Threw exec_error

text \<open>
  The errors the scripts raise themselves. \<open>CommandFailed retries msg\<close> is
  \<^verbatim>\<open>new Error(`Command failed after ${retries} attempts: ${error.message}`)\<close>.
\<close>

datatype error =
  CommandFailed nat string
| UnexpectedError
| NoFilesStaged
| FsError
| SyntaxError
| TypeError

text \<open>
  The \<^verbatim>\<open>for\<close> loop of \<^verbatim>\<open>executeCommand\<close> (the same text in both scripts), from
  \<^verbatim>\<open>attempt\<close> on. \<open>run attempt\<close> is what \<^verbatim>\<open>execSync\<close> does on that
  attempt.
\<close>

function attempt_loop ::
  "(nat \<Rightarrow> exec_result) \<Rightarrow> string \<Rightarrow> nat \<Rightarrow> nat \<Rightarrow> nat \<Rightarrow> action list
     \<Rightarrow> (error + string) \<times> action list" where
  "attempt_loop run command timeout retries attempt tr =
     (if attempt \<le> retries then
        (case run attempt of
           Completed result \<Rightarrow> (Inr result, tr @ [Exec command timeout])
         | Threw e \<Rightarrow>
             (let isLastAttempt = (attempt = retries);
                  tr1 = tr @ [Exec command timeout, Log WARN] in
              if isLastAttempt then (Inl (CommandFailed retries (err_message e)), tr1)
              else
                let waitTime = 2 ^ (attempt - 1) * 1000 in
                attempt_loop run command timeout retries (attempt + 1)
                  (tr1 @ [Sleep waitTime])))
      else (Inl UnexpectedError, tr))"
  by pat_completeness auto
termination
  by (relation "measure (\<lambda>(run, command, timeout, retries, attempt, tr). Suc retries - attempt)")
     auto

declare attempt_loop.simps [simp del]

definition executeCommand ::
  "(nat \<Rightarrow> exec_result) \<Rightarrow> string \<Rightarrow> nat \<Rightarrow> nat \<Rightarrow> action list
     \<Rightarrow> (error + string) \<times> action list" where
  "executeCommand run command timeout retries tr =
     attempt_loop run command timeout retries 1 tr"

text \<open>
  \<^verbatim>\<open>try { ... } catch (error) { ... }\<close> over a computation that returns a value or
  raises, together with the trace so far.
\<close>

definition try_catch ::
  "(error + 'a) \<times> 's \<Rightarrow> (error \<Rightarrow> 's \<Rightarrow> (error + 'a) \<times> 's) \<Rightarrow> (error + 'a) \<times> 's" where
  "try_catch r handler = (case r of (Inl e, s) \<Rightarrow> handler e s | (Inr v, s) \<Rightarrow> (Inr v, s))"

section \<open>IndexMerger: the loop of \<^verbatim>\<open>processLlmReadmeFiles\<close>\<close>

text \<open>
  The file system the merger works on: the regular files with their contents, and the
  directories. \<open>fs_faults\<close> says which calls the operating system refuses (a rename
  across devices, a missing permission); a call on a file that is not there fails as well.
  \<^verbatim>\<open>path.join\<close> is applied to normalised operands only (the working directory
  or a directory made from it, and a relative path below it): there it returns the second
  operand when the first is empty, and else puts one slash between them unless the first
  ends with one, as the root directory \<^verbatim>\<open>/\<close> does.
\<close>

record fsys =
  files :: "string \<rightharpoonup> string"
  dirs :: "string set"

record fs_faults =
  mkdir_fails :: "string \<Rightarrow> bool"
  rename_fails :: "string \<Rightarrow> string \<Rightarrow> bool"
  copy_fails :: "string \<Rightarrow> string \<Rightarrow> bool"
  unlink_fails :: "string \<Rightarrow> bool"

definition path_join :: "string \<Rightarrow> string \<Rightarrow> string" where
  "path_join a b =
     (if a = [] then b else if last a = slash then a @ b else a @ ''/'' @ b)"

definition existsSync :: "fsys \<Rightarrow> string \<Rightarrow> bool" where
  "existsSync fs p = (p \<in> dirs fs \<or> files fs p \<noteq> None)"

definition mkdirSync :: "fs_faults \<Rightarrow> fsys \<Rightarrow> string \<Rightarrow> error + fsys" where
  "mkdirSync flt fs p =
     (if mkdir_fails flt p then Inl FsError else Inr (fs\<lparr>dirs := insert p (dirs fs)\<rparr>))"

definition renameSync :: "fs_faults \<Rightarrow> fsys \<Rightarrow> string \<Rightarrow> string \<Rightarrow> error + fsys" where
  "renameSync flt fs src dst =
     (case files fs src of
        None \<Rightarrow> Inl FsError
      | Some content \<Rightarrow>
          if rename_fails flt src dst then Inl FsError
          else Inr (fs\<lparr>files := (files fs)(src := None, dst \<mapsto> content)\<rparr>))"

definition copyFileSync :: "fs_faults \<Rightarrow> fsys \<Rightarrow> string \<Rightarrow> string \<Rightarrow> error + fsys" where
  "copyFileSync flt fs src dst =
     (case files fs src of
        None \<Rightarrow> Inl FsError
      | Some content \<Rightarrow>
          if copy_fails flt src dst then Inl FsError
          else Inr (fs\<lparr>files := (files fs)(dst \<mapsto> content)\<rparr>))"

definition unlinkSync :: "fs_faults \<Rightarrow> fsys \<Rightarrow> string \<Rightarrow> error + fsys" where
  "unlinkSync flt fs p =
     (case files fs p of
        None \<Rightarrow> Inl FsError
      | Some content \<Rightarrow>
          if unlink_fails flt p then Inl FsError
          else Inr (fs\<lparr>files := (files fs)(p := None)\<rparr>))"

text \<open>
  The four counters of the summary the function logs when the loop is over, and the line
  it logs for each artifact: \<^verbatim>\<open>SKIP ... (excluded)\<close>, the warning
  \<^verbatim>\<open>Source file does not exist\<close>, \<^verbatim>\<open>${action} (moved)\<close>,
  \<^verbatim>\<open>${action} (copied+deleted)\<close> or the error \<^verbatim>\<open>Failed to move\<close>.
\<close>

record counters =
  filesFound :: nat
  filesCopied :: nat
  filesUpdated :: nat
  filesSkipped :: nat

datatype kind = NEW | UPDATE

datatype report =
  SkipExcluded string
| SourceMissing string
| Moved kind string string
| CopiedDeleted kind string string
| MoveFailed string

record merger =
  disk :: fsys
  cnt :: counters
  reports :: "report list"

definition excludeDirs :: "string list" where
  "excludeDirs = [''benchmark'', ''benchmarks'', ''node_modules'', ''.git'', ''dist'', ''coverage'']"

definition MASTER_INDEX_DIR :: "string \<Rightarrow> string" where
  "MASTER_INDEX_DIR root = path_join root ''master-index''"

definition skip :: "report \<Rightarrow> merger \<Rightarrow> merger" where
  "skip r m =
     m\<lparr>cnt := (cnt m)\<lparr>filesSkipped := filesSkipped (cnt m) + 1\<rparr>, reports := reports m @ [r]\<rparr>"

text \<open>
  The inner \<^verbatim>\<open>catch (err)\<close> of the loop body: copy, then delete the source; when
  either throws, the artifact is counted as skipped.
\<close>

definition fallback ::
  "fs_faults \<Rightarrow> kind \<Rightarrow> string \<Rightarrow> string \<Rightarrow> string \<Rightarrow> string \<Rightarrow> merger \<Rightarrow> merger" where
  "fallback flt action relativeFilePath targetFilename sourceFile destFile m =
     (case copyFileSync flt (disk m) sourceFile destFile of
        Inl e \<Rightarrow> skip (MoveFailed relativeFilePath) m
      | Inr fs1 \<Rightarrow>
          (case unlinkSync flt fs1 sourceFile of
             Inl e \<Rightarrow> skip (MoveFailed relativeFilePath) (m\<lparr>disk := fs1\<rparr>)
           | Inr fs2 \<Rightarrow>
               m\<lparr>disk := fs2,
                 reports := reports m @ [CopiedDeleted action relativeFilePath targetFilename]\<rparr>))"

text \<open>One round of the \<^verbatim>\<open>for (const relativeFilePath of llmReadmeFiles)\<close> loop.\<close>

definition process_file :: "fs_faults \<Rightarrow> string \<Rightarrow> merger \<Rightarrow> string \<Rightarrow> merger" where
  "process_file flt root m relativeFilePath =
     (if list_ex (\<lambda>dir. includes_str relativeFilePath dir) excludeDirs then
        skip (SkipExcluded relativeFilePath) m
      else
        let m1 = m\<lparr>cnt := (cnt m)\<lparr>filesFound := filesFound (cnt m) + 1\<rparr>\<rparr>;
            sourceFile = path_join root relativeFilePath;
            targetFilename = transformPathToFilename relativeFilePath;
            destFile = path_join (MASTER_INDEX_DIR root) targetFilename;
            action = (if existsSync (disk m1) destFile then UPDATE else NEW);
            m2 = (if existsSync (disk m1) destFile
                  then m1\<lparr>cnt := (cnt m1)\<lparr>filesUpdated := filesUpdated (cnt m1) + 1\<rparr>\<rparr>
                  else m1\<lparr>cnt := (cnt m1)\<lparr>filesCopied := filesCopied (cnt m1) + 1\<rparr>\<rparr>);
            destDir = dirname destFile
        in
        case (if \<not> existsSync (disk m2) destDir then mkdirSync flt (disk m2) destDir
              else Inr (disk m2)) of
          Inl e \<Rightarrow> fallback flt action relativeFilePath targetFilename sourceFile destFile m2
        | Inr fs1 \<Rightarrow>
            let m3 = m2\<lparr>disk := fs1\<rparr> in
            if \<not> existsSync fs1 sourceFile then skip (SourceMissing sourceFile) m3
            else
              (case renameSync flt fs1 sourceFile destFile of
                 Inr fs2 \<Rightarrow>
                   m3\<lparr>disk := fs2,
                      reports := reports m3 @ [Moved action relativeFilePath targetFilename]\<rparr>
               | Inl e \<Rightarrow>
                   fallback flt action relativeFilePath targetFilename sourceFile destFile m3))"

definition process_all :: "fs_faults \<Rightarrow> string \<Rightarrow> merger \<Rightarrow> string list \<Rightarrow> merger" where
  "process_all flt root m llmReadmeFiles = foldl (process_file flt root) m llmReadmeFiles"

text \<open>
  \<^verbatim>\<open>processLlmReadmeFiles\<close> from the list the collector returned: nothing is done for
  an empty list; \<^verbatim>\<open>ensureDirectoryExists(MASTER_INDEX_DIR)\<close> comes before the loop and
  is the one call whose failure leaves the function. The result is the file system, the
  counters of the summary and the lines logged.
\<close>

definition ensureDirectoryExists :: "fs_faults \<Rightarrow> fsys \<Rightarrow> string \<Rightarrow> error + fsys" where
  "ensureDirectoryExists flt fs dirPath =
     (if \<not> existsSync fs dirPath then mkdirSync flt fs dirPath else Inr fs)"

definition processLlmReadmeFiles ::
  "fs_faults \<Rightarrow> string \<Rightarrow> fsys \<Rightarrow> string list \<Rightarrow> error + merger" where
  "processLlmReadmeFiles flt root fs0 llmReadmeFiles =
     (let start = \<lparr>disk = fs0,
                   cnt = \<lparr>filesFound = 0, filesCopied = 0, filesUpdated = 0, filesSkipped = 0\<rparr>,
                   reports = []\<rparr> in
      if llmReadmeFiles = [] then Inr start
      else
        case ensureDirectoryExists flt fs0 (MASTER_INDEX_DIR root) of
          Inl e \<Rightarrow> Inl e
        | Inr fs1 \<Rightarrow> Inr (process_all flt root (start\<lparr>disk := fs1\<rparr>) llmReadmeFiles))"

text \<open>
  The paths the merger is given: the project root is the working directory, an absolute
  path whose segments are neither empty nor \<^verbatim>\<open>.\<close> nor \<^verbatim>\<open>..\<close>; an artifact's
  path is relative to it, with segments of the same kind.
\<close>

fun segments :: "string \<Rightarrow> string list" where
  "segments [] = [] # []"
| "segments (c # cs) =
     (if c = slash then [] # segments cs
      else (case segments cs of [] \<Rightarrow> [c] # [] | s # ss \<Rightarrow> (c # s) # ss))"

definition proper_segment :: "string \<Rightarrow> bool" where
  "proper_segment s = (s \<noteq> [] \<and> s \<noteq> ''.'' \<and> s \<noteq> ''..'')"

definition normal_relative :: "string \<Rightarrow> bool" where
  "normal_relative p = list_all proper_segment (segments p)"

definition absolute_directory :: "string \<Rightarrow> bool" where
  "absolute_directory root =
     (root = ''/'' \<or> (root \<noteq> [] \<and> hd root = slash \<and> normal_relative (tl root)))"

text \<open>
  The relative path of the artifact \<open>name\<close> in the directory \<open>d\<close>, where the empty
  \<open>d\<close> stands for the project root; an operating system that refuses nothing; and a
  small merger state to run the loop on: a repository at \<^verbatim>\<open>/repo\<close> whose directory
  \<^verbatim>\<open>lib\<close> holds both artifacts, with an empty master index.
\<close>

definition in_directory :: "string \<Rightarrow> string \<Rightarrow> string" where
  "in_directory d name = (if d = [] then name else d @ ''/'' @ name)"

definition no_faults :: fs_faults where
  "no_faults =
     \<lparr>mkdir_fails = (\<lambda>p. False), rename_fails = (\<lambda>src dst. False),
      copy_fails = (\<lambda>src dst. False), unlink_fails = (\<lambda>p. False)\<rparr>"

definition sample_merger :: merger where
  "sample_merger =
     \<lparr>disk = \<lparr>files = [''/repo/lib/llmreadme.json'' \<mapsto> ''A'',
                        ''/repo/lib/llmreadme-enhanced.json'' \<mapsto> ''B''],
              dirs = {''/repo/master-index''}\<rparr>,
      cnt = \<lparr>filesFound = 0, filesCopied = 0, filesUpdated = 0, filesSkipped = 0\<rparr>,
      reports = []\<rparr>"

text \<open>
  A second state: the directories \<^verbatim>\<open>src/utils\<close> and \<^verbatim>\<open>src-utils\<close>, whose canonical
  names are the same, the second holding both artifacts.
\<close>

definition collision_merger :: merger where
  "collision_merger =
     \<lparr>disk = \<lparr>files = [''/repo/src/utils/llmreadme.json'' \<mapsto> ''U'',
                        ''/repo/src-utils/llmreadme-enhanced.json'' \<mapsto> ''E'',
                        ''/repo/src-utils/llmreadme.json'' \<mapsto> ''S''],
              dirs = {''/repo/master-index''}\<rparr>,
      cnt = \<lparr>filesFound = 0, filesCopied = 0, filesUpdated = 0, filesSkipped = 0\<rparr>,
      reports = []\<rparr>"

section \<open>TargetDirectoryResolver: \<^verbatim>\<open>determineTargetDirectories\<close>\<close>

text \<open>
  The configuration object of the pre-commit script. Its fields are read, never written,
  by the functions modelled here.
\<close>

datatype logLevel = info | verbose | silent

record ScriptConfig =
  cfg_timeout :: nat
  maxRetries :: nat
  cfg_logLevel :: logLevel
  createSeparateCommits :: bool
  readmeCommitMessage :: string
  useDocker :: bool
  targetDirectories :: "string list"

text \<open>
  \<^verbatim>\<open>s.trim()\<close> and \<^verbatim>\<open>s.split('\n')\<close>. The white space of a string of 8-bit code
  units: tab, line feed, vertical tab, form feed, carriage return, space and the no-break
  space.
\<close>

definition is_space :: "char \<Rightarrow> bool" where
  "is_space c =
     (c = CHR 0x09 \<or> c = CHR 0x0A \<or> c = CHR 0x0B \<or> c = CHR 0x0C \<or> c = CHR 0x0D \<or>
      c = CHR 0x20 \<or> c = CHR 0xA0)"

definition trim :: "string \<Rightarrow> string" where
  "trim s = rev (dropWhile is_space (rev (dropWhile is_space s)))"

fun split_lines :: "string \<Rightarrow> string list" where
  "split_lines [] = [] # []"
| "split_lines (c # cs) =
     (if c = CHR 0x0A then [] # split_lines cs
      else (case split_lines cs of [] \<Rightarrow> [c] # [] | line # rest \<Rightarrow> (c # line) # rest))"

text \<open>
  What the resolver sees of the file system: whether a path exists, and the entries of a
  directory (\<^verbatim>\<open>fs.readdirSync\<close> throws when the path cannot be listed).
\<close>

record dir_view =
  exists_at :: "string \<Rightarrow> bool"
  readdir_at :: "string \<Rightarrow> error + string list"

definition isDirectoryEmpty ::
  "dir_view \<Rightarrow> string \<Rightarrow> action list \<Rightarrow> (error + bool) \<times> action list" where
  "isDirectoryEmpty view dirPath tr =
     try_catch
       (if \<not> exists_at view dirPath then (Inr True, tr)
        else
          case readdir_at view dirPath of
            Inl e \<Rightarrow> (Inl e, tr)
          | Inr entries \<Rightarrow> (Inr (length entries = 0), tr))
       (\<lambda>e tr1. (Inr True, tr1 @ [Log WARN]))"

text \<open>
  \<^verbatim>\<open>getStagedFiles\<close>; \<open>sh command attempt\<close> is what \<^verbatim>\<open>execSync\<close> does with
  \<open>command\<close> on that attempt.
\<close>

definition getStagedFiles ::
  "ScriptConfig \<Rightarrow> (string \<Rightarrow> nat \<Rightarrow> exec_result) \<Rightarrow> action list
     \<Rightarrow> (error + string list) \<times> action list" where
  "getStagedFiles cfg sh tr =
     try_catch
       (let command = ''git diff --name-only --cached'' in
        case executeCommand (sh command) command (cfg_timeout cfg) 1 tr of
          (Inl e, tr1) \<Rightarrow> (Inl e, tr1)
        | (Inr output, tr1) \<Rightarrow>
            if output = [] \<or> length (trim output) = 0 then (Inr [], tr1)
            else
              (Inr (filter
                      (\<lambda>file. file \<noteq> [] \<and> trim file \<noteq> [] \<and> \<not> startsWith file ''master-index/'')
                      (split_lines (trim output))),
               tr1))
       (\<lambda>e tr1. (Inr [], tr1 @ [Log WARN]))"

text \<open>\<^verbatim>\<open>targetPaths.add(x)\<close> on a \<^verbatim>\<open>Set\<close>, which keeps the order of insertion.\<close>

definition set_add :: "string \<Rightarrow> string list \<Rightarrow> string list" where
  "set_add x xs = (if x \<in> set xs then xs else xs @ [x])"

definition add_target :: "string list \<Rightarrow> string \<Rightarrow> string list" where
  "add_target targetPaths file =
     (let parentDir = dirname file in
      if parentDir \<noteq> ''.'' then set_add parentDir targetPaths
      else set_add file targetPaths)"

definition excludedDirs :: "string list" where
  "excludedDirs = [''node_modules'', ''.git'', ''dist'', ''build'', ''coverage'', ''.next'', ''.nuxt'']"

definition analysed :: "string \<Rightarrow> bool" where
  "analysed dir =
     (dir \<notin> set excludedDirs \<and>
      \<not> list_ex (\<lambda>excluded. startsWith dir (excluded @ ''/'')) excludedDirs)"

definition determineTargetDirectories ::
  "ScriptConfig \<Rightarrow> dir_view \<Rightarrow> (string \<Rightarrow> nat \<Rightarrow> exec_result) \<Rightarrow> string \<Rightarrow> action list
     \<Rightarrow> (error + string list) \<times> action list" where
  "determineTargetDirectories cfg view sh root tr =
     (if length (targetDirectories cfg) > 0 then (Inr (targetDirectories cfg), tr)
      else
        let masterIndexPath = path_join root ''master-index'' in
        if \<not> exists_at view masterIndexPath then (Inr [''.''], tr)
        else
          case isDirectoryEmpty view masterIndexPath tr of
            (Inl e, tr1) \<Rightarrow> (Inl e, tr1)
          | (Inr True, tr1) \<Rightarrow> (Inr [''.''], tr1)
          | (Inr False, tr1) \<Rightarrow>
              try_catch
                (case getStagedFiles cfg sh tr1 of
                   (Inl e, tr2) \<Rightarrow> (Inl e, tr2)
                 | (Inr stagedFiles, tr2) \<Rightarrow>
                     if length stagedFiles = 0 then (Inr [''.''], tr2)
                     else
                       let targetPaths = foldl add_target [] stagedFiles;
                           filteredPaths = filter analysed targetPaths
                       in
                       if length filteredPaths > 0 then (Inr filteredPaths, tr2)
                       else (Inr [''.''], tr2))
                (\<lambda>e tr2. (Inr [''.''], tr2 @ [Log WARN])))"

text \<open>
  A configuration and a view of the file system to run the resolver on: the defaults of
  the pre-commit script (with a plain commit message), and a repository at
  \<^verbatim>\<open>/repo\<close> whose master index holds one file.
\<close>

definition sample_config :: ScriptConfig where
  "sample_config =
     \<lparr>cfg_timeout = 300000, maxRetries = 3, cfg_logLevel = verbose,
      createSeparateCommits = True,
      readmeCommitMessage = ''Generated master index'',
      useDocker = False, targetDirectories = []\<rparr>"

definition sample_view :: dir_view where
  "sample_view =
     \<lparr>exists_at = (\<lambda>p. p = ''/repo/master-index''),
      readdir_at = (\<lambda>p. if p = ''/repo/master-index'' then Inr [''lib.json''] else Inl FsError)\<rparr>"

section \<open>HandoffStore: the metadata file\<close>

text \<open>
  A value \<^verbatim>\<open>JSON.parse\<close> can return. A number is kept as the text JavaScript prints
  for it. \<^verbatim>\<open>JSON.stringify\<close> and \<^verbatim>\<open>JSON.parse\<close> belong to the runtime, not to the
  repository: they are parameters of the model (\<open>json_parse\<close> gives \<open>None\<close> where
  \<^verbatim>\<open>JSON.parse\<close> throws a \<^verbatim>\<open>SyntaxError\<close>), and so is whether the operating system
  refuses to write, read or remove the metadata file.
\<close>

datatype json =
  JNull
| JBool bool
| JNum string
| JStr string
| JArr "json list"
| JObj "(string \<times> json) list"

record store_env =
  json_stringify :: "json \<Rightarrow> string"
  json_parse :: "string \<Rightarrow> json option"
  write_refused :: bool
  read_refused :: bool
  unlink_refused :: bool

text \<open>
  Both scripts build the path of the metadata file from the same three parts
  (\<^verbatim>\<open>PROJECT_ROOT\<close>, \<^verbatim>\<open>.git\<close>, \<^verbatim>\<open>llm-readme-metadata.json\<close>); \<open>metadata_file\<close> is
  the content of the file at that path, \<open>None\<close> when there is no such file.
\<close>

record world =
  metadata_file :: "string option"
  trace :: "action list"

definition log :: "level \<Rightarrow> world \<Rightarrow> world" where
  "log l w = w\<lparr>trace := trace w @ [Log l]\<rparr>"

text \<open>
  An object of the interface \<^verbatim>\<open>CommitMetadata\<close>, as the object literal in
  \<^verbatim>\<open>saveCommitMetadata\<close> builds it.
\<close>

definition CommitMetadata :: "string \<Rightarrow> string \<Rightarrow> bool \<Rightarrow> json" where
  "CommitMetadata timestamp commitMessage hasFiles =
     JObj [(''timestamp'', JStr timestamp),
           (''commitMessage'', JStr commitMessage),
           (''hasLlmReadmeFiles'', JBool hasFiles)]"

text \<open>\<^verbatim>\<open>saveCommitMetadata\<close> of the pre-commit script; \<open>now\<close> is
  \<^verbatim>\<open>new Date().toISOString()\<close>.\<close>

definition saveCommitMetadata :: "ScriptConfig \<Rightarrow> store_env \<Rightarrow> string \<Rightarrow> world \<Rightarrow> world" where
  "saveCommitMetadata cfg se now w =
     (if \<not> createSeparateCommits cfg then w
      else
        snd (try_catch
          (let metadata = CommitMetadata now (readmeCommitMessage cfg) True in
           if write_refused se then (Inl FsError, w)
           else (Inr (), w\<lparr>metadata_file := Some (json_stringify se metadata)\<rparr>))
          (\<lambda>e w1. (Inr (), log WARN w1))))"

text \<open>\<^verbatim>\<open>loadCommitMetadata\<close> and \<^verbatim>\<open>cleanupMetadata\<close> of the post-commit script.
  \<open>JNull\<close> is the \<^verbatim>\<open>null\<close> the first returns.\<close>

definition loadCommitMetadata :: "store_env \<Rightarrow> world \<Rightarrow> (error + json) \<times> world" where
  "loadCommitMetadata se w =
     try_catch
       (case metadata_file w of
          None \<Rightarrow> (Inr JNull, w)
        | Some metadataContent \<Rightarrow>
            if read_refused se then (Inl FsError, w)
            else
              (case json_parse se metadataContent of
                 None \<Rightarrow> (Inl SyntaxError, w)
               | Some metadata \<Rightarrow> (Inr metadata, w)))
       (\<lambda>e w1. (Inr JNull, log ERROR w1))"

definition cleanupMetadata :: "store_env \<Rightarrow> world \<Rightarrow> world" where
  "cleanupMetadata se w =
     (let w0 = w\<lparr>trace := trace w @ [CleanupMetadata]\<rparr> in
      snd (try_catch
        (case metadata_file w0 of
           None \<Rightarrow> (Inr (), w0)
         | Some content \<Rightarrow>
             if unlink_refused se then (Inl FsError, w0)
             else (Inr (), w0\<lparr>metadata_file := None\<rparr>))
        (\<lambda>e w1. (Inr (), log WARN w1))))"

section \<open>CommitCoordinator, phase B: the post-commit script\<close>

text \<open>
  How JavaScript reads a parsed value: \<^verbatim>\<open>!v\<close> is true for \<^verbatim>\<open>null\<close>,
  \<^verbatim>\<open>false\<close>, \<^verbatim>\<open>0\<close> and the empty string; \<^verbatim>\<open>v.hasLlmReadmeFiles\<close> and
  \<^verbatim>\<open>v.commitMessage\<close> are \<^verbatim>\<open>undefined\<close> (\<open>None\<close>) unless \<^verbatim>\<open>v\<close> is an object
  with that key (\<^verbatim>\<open>JSON.parse\<close> returns each key once); a template literal prints a
  value as \<^verbatim>\<open>String(v)\<close> does.
\<close>

fun truthy :: "json \<Rightarrow> bool" where
  "truthy JNull = False"
| "truthy (JBool b) = b"
| "truthy (JNum n) = (n \<noteq> ''0'')"
| "truthy (JStr s) = (s \<noteq> [])"
| "truthy (JArr xs) = True"
| "truthy (JObj kvs) = True"

fun get_property :: "json \<Rightarrow> string \<Rightarrow> json option" where
  "get_property (JObj kvs) k = map_of kvs k"
| "get_property v k = None"

definition truthy_property :: "json option \<Rightarrow> bool" where
  "truthy_property p = (case p of None \<Rightarrow> False | Some v \<Rightarrow> truthy v)"

fun join_comma :: "string list \<Rightarrow> string" where
  "join_comma [] = []"
| "join_comma [s] = s"
| "join_comma (s # t # ss) = s @ '','' @ join_comma (t # ss)"

text \<open>
  The elements of an array are printed from left to right, and the first one that cannot
  be printed decides.
\<close>

fun collect :: "(error + string) list \<Rightarrow> error + string list" where
  "collect [] = Inr []"
| "collect (Inl e # rs) = Inl e"
| "collect (Inr s # rs) = (case collect rs of Inl e \<Rightarrow> Inl e | Inr ss \<Rightarrow> Inr (s # ss))"

text \<open>
  \<^verbatim>\<open>String(v)\<close>. An array prints its elements separated by commas, \<^verbatim>\<open>null\<close> as
  nothing. An object prints as \<^verbatim>\<open>[object Object]\<close> through the \<^verbatim>\<open>toString\<close> it
  inherits; when it has a key \<^verbatim>\<open>toString\<close> of its own, that value is not a function
  (no parsed value is), \<^verbatim>\<open>valueOf\<close> gives no primitive either, and the conversion
  throws a \<^verbatim>\<open>TypeError\<close>.
\<close>

fun to_js_string :: "json \<Rightarrow> error + string" where
  "to_js_string JNull = Inr ''null''"
| "to_js_string (JBool b) = Inr (if b then ''true'' else ''false'')"
| "to_js_string (JNum n) = Inr n"
| "to_js_string (JStr s) = Inr s"
| "to_js_string (JArr xs) =
     (case collect (map (\<lambda>x. if x = JNull then Inr [] else to_js_string x) xs) of
        Inl e \<Rightarrow> Inl e
      | Inr ss \<Rightarrow> Inr (join_comma ss))"
| "to_js_string (JObj kvs) =
     (if map_of kvs ''toString'' = None then Inr ''[object Object]'' else Inl TypeError)"

definition template_string :: "json option \<Rightarrow> error + string" where
  "template_string p = (case p of None \<Rightarrow> Inr ''undefined'' | Some v \<Rightarrow> to_js_string v)"

text \<open>
  The \<^verbatim>\<open>master-index\<close> directory as \<^verbatim>\<open>hasLlmReadmeFiles\<close> walks it: an entry is a
  regular file, a directory with its entries, or something else (\<^verbatim>\<open>isFile()\<close> and
  \<^verbatim>\<open>isDirectory()\<close> both false).
\<close>

datatype node = File | Dir "(string \<times> node) list" | Other

definition word_char :: "char \<Rightarrow> bool" where
  "word_char c =
     (c \<in> set ''abcdefghijklmnopqrstuvwxyzABCDEFGHIJKLMNOPQRSTUVWXYZ0123456789-_'')"

text \<open>The test \<^verbatim>\<open>/^[a-zA-Z0-9\-_]+\.json$/\<close>.\<close>

definition plain_json_name :: "string \<Rightarrow> bool" where
  "plain_json_name name =
     (endsWith name ''.json'' \<and> 5 < length name \<and>
      list_all word_char (take (length name - 5) name))"

definition index_file_name :: "string \<Rightarrow> bool" where
  "index_file_name name =
     (endsWith name ''.json'' \<and>
      (includes_str name ''llmreadme'' \<or>
       name = ''project-root.json'' \<or>
       includes_str name ''-root.json'' \<or>
       (plain_json_name name \<and>
        \<not> startsWith name ''package'' \<and>
        \<not> startsWith name ''tsconfig'' \<and>
        \<not> startsWith name ''eslint'')))"

text \<open>The inner \<^verbatim>\<open>findLlmReadmeFiles(dir)\<close> of \<^verbatim>\<open>hasLlmReadmeFiles\<close>, over the
  entries of \<open>dir\<close>.\<close>

fun findIndexFiles :: "string \<Rightarrow> (string \<times> node) list \<Rightarrow> string list" where
  "findIndexFiles dir [] = []"
| "findIndexFiles dir ((name, Dir sub) # entries) =
     findIndexFiles (path_join dir name) sub @ findIndexFiles dir entries"
| "findIndexFiles dir ((name, File) # entries) =
     (if index_file_name name then [path_join dir name] else []) @ findIndexFiles dir entries"
| "findIndexFiles dir ((name, Other) # entries) = findIndexFiles dir entries"

definition hasLlmReadmeFiles ::
  "string \<Rightarrow> node option \<Rightarrow> world \<Rightarrow> (error + bool) \<times> world" where
  "hasLlmReadmeFiles root master_index w =
     try_catch
       (let masterIndexPath = path_join root ''master-index'' in
        case master_index of
          None \<Rightarrow> (Inr False, w)
        | Some (Dir entries) \<Rightarrow>
            if length entries = 0 then (Inr False, w)
            else if length (findIndexFiles masterIndexPath entries) = 0 then (Inr False, w)
            else (Inr True, w)
        | Some other \<Rightarrow> (Inl FsError, w))
       (\<lambda>e w1. (Inr False, log WARN w1))"

text \<open>
  The configuration of the post-commit script is a constant; only its \<^verbatim>\<open>timeout\<close>
  is read by what is modelled here (the callers pass \<^verbatim>\<open>retries: 1\<close>).
\<close>

definition post_timeout :: nat where
  "post_timeout = 30000"

abbreviation dquote :: char where
  "dquote \<equiv> CHR 0x22"

text \<open>The template literal \<^verbatim>\<open>`git commit -m "${commitMessage}" --no-verify`\<close>.\<close>

definition commit_command :: "string \<Rightarrow> string" where
  "commit_command commitMessage =
     ''git commit -m '' @ [dquote] @ commitMessage @ [dquote] @ '' --no-verify''"

definition exec :: "(string \<Rightarrow> nat \<Rightarrow> exec_result) \<Rightarrow> string \<Rightarrow> nat \<Rightarrow> nat \<Rightarrow> world
     \<Rightarrow> (error + string) \<times> world" where
  "exec sh command timeout retries w =
     (case executeCommand (sh command) command timeout retries (trace w) of
        (r, tr) \<Rightarrow> (r, w\<lparr>trace := tr\<rparr>))"

definition commitLlmReadmeFiles ::
  "(string \<Rightarrow> nat \<Rightarrow> exec_result) \<Rightarrow> string \<Rightarrow> node option \<Rightarrow> json \<Rightarrow> world
     \<Rightarrow> (error + bool) \<times> world" where
  "commitLlmReadmeFiles sh root master_index metadata w =
     try_catch
       (case hasLlmReadmeFiles root master_index w of
          (Inl e, w1) \<Rightarrow> (Inl e, w1)
        | (Inr False, w1) \<Rightarrow> (Inr True, w1)
        | (Inr True, w1) \<Rightarrow>
            (case exec sh ''git add master-index/'' 60000 1 w1 of
               (Inl e, w2) \<Rightarrow> (Inl e, w2)
             | (Inr added, w2) \<Rightarrow>
                 (case exec sh ''git diff --name-only --cached master-index/'' post_timeout 1 w2 of
                    (Inl e, w3) \<Rightarrow> (Inl e, w3)
                  | (Inr stagedFiles, w3) \<Rightarrow>
                      if stagedFiles = [] \<or> trim stagedFiles = [] then (Inl NoFilesStaged, w3)
                      else
                        let w3 = log SUCCESS w3 in
                        (case template_string (get_property metadata ''commitMessage'') of
                           Inl e \<Rightarrow> (Inl e, w3)
                         | Inr commitMessage \<Rightarrow>
                             let commitCommand = commit_command commitMessage in
                             (case exec sh commitCommand 60000 1 w3 of
                                (Inl e, w4) \<Rightarrow> (Inl e, w4)
                              | (Inr committed, w4) \<Rightarrow> (Inr True, log SUCCESS w4))))))
       (\<lambda>e w1. (Inr False, log ERROR w1))"

text \<open>
  \<^verbatim>\<open>main\<close>: the \<^verbatim>\<open>try\<close> block, then the \<^verbatim>\<open>catch\<close> clause, then the
  \<^verbatim>\<open>finally\<close> clause.
\<close>

definition main_try ::
  "store_env \<Rightarrow> (string \<Rightarrow> nat \<Rightarrow> exec_result) \<Rightarrow> string \<Rightarrow> node option \<Rightarrow> world
     \<Rightarrow> (error + unit) \<times> world" where
  "main_try se sh root master_index w =
     (case loadCommitMetadata se w of
        (Inl e, w1) \<Rightarrow> (Inl e, w1)
      | (Inr metadata, w1) \<Rightarrow>
          if \<not> truthy metadata then (Inr (), w1)
          else if \<not> truthy_property (get_property metadata ''hasLlmReadmeFiles'') then (Inr (), w1)
          else
            (case commitLlmReadmeFiles sh root master_index metadata w1 of
               (Inl e, w2) \<Rightarrow> (Inl e, w2)
             | (Inr success, w2) \<Rightarrow>
                 if success then (Inr (), log SUCCESS w2) else (Inr (), log WARN w2)))"

definition main_caught ::
  "store_env \<Rightarrow> (string \<Rightarrow> nat \<Rightarrow> exec_result) \<Rightarrow> string \<Rightarrow> node option \<Rightarrow> world
     \<Rightarrow> (error + unit) \<times> world" where
  "main_caught se sh root master_index w =
     try_catch (main_try se sh root master_index w) (\<lambda>e w1. (Inr (), log ERROR w1))"

definition main ::
  "store_env \<Rightarrow> (string \<Rightarrow> nat \<Rightarrow> exec_result) \<Rightarrow> string \<Rightarrow> node option \<Rightarrow> world
     \<Rightarrow> (error + unit) \<times> world" where
  "main se sh root master_index w =
     (case main_caught se sh root master_index w of
        (r, w1) \<Rightarrow> (r, cleanupMetadata se w1))"

text \<open>
  The handlers the two scripts register: for \<^verbatim>\<open>SIGINT\<close> and \<^verbatim>\<open>SIGTERM\<close>, and for a
  rejected \<^verbatim>\<open>main()\<close> promise.
\<close>

datatype signal = SIGINT | SIGTERM

definition exit :: "nat \<Rightarrow> world \<Rightarrow> world" where
  "exit status w = w\<lparr>trace := trace w @ [Exit status]\<rparr>"

definition post_signal_handler :: "store_env \<Rightarrow> signal \<Rightarrow> world \<Rightarrow> world" where
  "post_signal_handler se sig w = exit 0 (cleanupMetadata se w)"

definition post_rejection_handler :: "store_env \<Rightarrow> world \<Rightarrow> world" where
  "post_rejection_handler se w = exit 0 (cleanupMetadata se (log ERROR w))"

definition pre_signal_handler :: "signal \<Rightarrow> world \<Rightarrow> world" where
  "pre_signal_handler sig w = exit 1 w"

definition pre_rejection_handler :: "world \<Rightarrow> world" where
  "pre_rejection_handler w = exit 1 (log ERROR w)"

text \<open>
  One run of the post-commit script. \<^verbatim>\<open>main\<close> is synchronous (\<^verbatim>\<open>execSync\<close>, a
  busy wait, no \<^verbatim>\<open>await\<close>): it runs to its end before anything else happens, and a
  signal that arrives meanwhile waits. Once \<^verbatim>\<open>main\<close> is over: if the promise it
  returned is rejected, the rejection handler runs; else, if a signal is waiting, its
  handler runs; else the process leaves with status 0.
\<close>

definition after_main :: "store_env \<Rightarrow> (error + unit) \<times> world \<Rightarrow> signal option \<Rightarrow> world" where
  "after_main se outcome waiting =
     (case outcome of
        (Inl err, w1) \<Rightarrow> post_rejection_handler se w1
      | (Inr u, w1) \<Rightarrow>
          (case waiting of
             None \<Rightarrow> exit 0 w1
           | Some sig \<Rightarrow> post_signal_handler se sig w1))"

definition post_commit_process ::
  "store_env \<Rightarrow> (string \<Rightarrow> nat \<Rightarrow> exec_result) \<Rightarrow> string \<Rightarrow> node option \<Rightarrow> signal option
     \<Rightarrow> world \<Rightarrow> world" where
  "post_commit_process se sh root master_index waiting w =
     after_main se (main se sh root master_index w) waiting"

text \<open>
  To speak about a run: the commands a trace has executed, in order, and whether an
  action is a \<^verbatim>\<open>process.exit\<close>.
\<close>

fun commands :: "action list \<Rightarrow> string list" where
  "commands [] = []"
| "commands (Exec command timeout # tr) = command # commands tr"
| "commands (a # tr) = commands tr"

fun is_exit :: "action \<Rightarrow> bool" where
  "is_exit (Exit status) = True"
| "is_exit a = False"

text \<open>
  A small world to run phase B in. The runtime's JSON functions are stood in for by a
  pair that serialises one metadata object to the text \<^verbatim>\<open>sample metadata\<close> and parses
  that text back, and rejects any other text; the operating system refuses nothing; the
  master index holds one file; git answers every command with one path, or with nothing.
\<close>

definition sample_metadata :: json where
  "sample_metadata = CommitMetadata ''2026-01-01T00:00:00.000Z'' ''Generated master index'' True"

definition sample_store :: store_env where
  "sample_store =
     \<lparr>json_stringify = (\<lambda>v. if v = sample_metadata then ''sample metadata'' else ''other value''),
      json_parse = (\<lambda>s. if s = ''sample metadata'' then Some sample_metadata else None),
      write_refused = False, read_refused = False, unlink_refused = False\<rparr>"

definition sample_index :: "node option" where
  "sample_index = Some (Dir [(''lib.json'', File)])"

definition sample_shell :: "string \<Rightarrow> nat \<Rightarrow> exec_result" where
  "sample_shell command attempt = Completed ''master-index/lib.json''"

definition blank_shell :: "string \<Rightarrow> nat \<Rightarrow> exec_result" where
  "blank_shell command attempt = Completed []"

definition pending_world :: world where
  "pending_world = \<lparr>metadata_file = Some ''sample metadata'', trace = []\<rparr>"

definition idle_world :: world where
  "idle_world = \<lparr>metadata_file = None, trace = []\<rparr>"

text \<open>
  Two more stores: one where the operating system refuses to remove the metadata file,
  and one whose metadata file parses to an object whose \<^verbatim>\<open>commitMessage\<close> is
  \<^verbatim>\<open>{"toString": 1}\<close>, which no template literal can print.
\<close>

definition refusing_store :: store_env where
  "refusing_store = sample_store\<lparr>unlink_refused := True\<rparr>"

definition unprintable_metadata :: json where
  "unprintable_metadata =
     JObj [(''timestamp'', JStr ''2026-01-01T00:00:00.000Z''),
           (''commitMessage'', JObj [(''toString'', JNum ''1'')]),
           (''hasLlmReadmeFiles'', JBool True)]"

definition unprintable_store :: store_env where
  "unprintable_store = sample_store\<lparr>json_parse := (\<lambda>s. Some unprintable_metadata)\<rparr>"

section \<open>Properties of the path transform\<close>

lemma dirname_scan_no_slash: "slash \<notin> set cs \<Longrightarrow> dirname_scan cs m = None"
  by (induction cs arbitrary: m) auto

lemma dirname_no_slash: "slash \<notin> set p \<Longrightarrow> dirname p = ''.''"
proof (cases p)
  case Nil
  then show ?thesis by (simp add: dirname_def)
next
  case (Cons c cs)
  assume a: "slash \<notin> set p"
  with Cons have "dirname_scan (rev cs) True = None"
    by (intro dirname_scan_no_slash) simp
  with a Cons show ?thesis by (auto simp add: dirname_def)
qed

lemma replace_seps_no_slash: "slash \<notin> set (replace_seps s)"
  by (induction s rule: replace_seps.induct) (auto simp: is_sep_def)

lemma transform_no_slash: "slash \<notin> set (transformPathToFilename x)"
  by (simp add: transformPathToFilename_def Let_def replace_seps_no_slash)

text \<open>
  Claim C1, as amended. The transform is a function of its argument alone. A root-level
  input (one whose containing directory is \<^verbatim>\<open>.\<close>) yields \<^verbatim>\<open>project-root.json\<close>.
  The transform is not idempotent: a name it returns holds no slash, so it is itself a
  root-level input, and transforming it gives \<^verbatim>\<open>project-root.json\<close> whatever the first
  input was. Hence \<open>transform (transform x) = transform x\<close> exactly when
  \<open>transform x\<close> is \<^verbatim>\<open>project-root.json\<close>.
\<close>

theorem transform_twice_is_root_name:
  "transformPathToFilename (transformPathToFilename x) = ''project-root.json'' \<and>
   (dirname x = ''.'' \<longrightarrow> transformPathToFilename x = ''project-root.json'')"
  by (simp add: dirname_no_slash[OF transform_no_slash]
        transformPathToFilename_def[of "transformPathToFilename x"])
     (simp add: transformPathToFilename_def)

theorem transform_twice_is_root_name_witness:
  "dirname ''llmreadme.json'' = ''.'' \<and>
   transformPathToFilename ''llmreadme.json'' = ''project-root.json'' \<and>
   transformPathToFilename (transformPathToFilename ''llmreadme.json'') = ''project-root.json''"
  using transform_twice_is_root_name[of "''llmreadme.json''"]
  by (simp add: dirname_def transformPathToFilename_def)

text \<open>
  Claim C1 as stated fails: \<^verbatim>\<open>src/llmreadme.json\<close> is flattened to
  \<^verbatim>\<open>src-root.json\<close>, and \<^verbatim>\<open>src-root.json\<close> to \<^verbatim>\<open>project-root.json\<close>.
\<close>

theorem transform_not_idempotent:
  "transformPathToFilename (transformPathToFilename ''src/llmreadme.json'')
     \<noteq> transformPathToFilename ''src/llmreadme.json''"
  by (simp add: transformPathToFilename_def dirname_def is_lead_def is_sep_def conventional_def)

lemma dirname_scan_stops:
  "slash \<notin> set xs \<Longrightarrow> dirname_scan (xs @ slash # ys) False = Some (Suc (length ys))"
  by (induction xs) auto

lemma dirname_scan_file:
  assumes "f \<noteq> []" "slash \<notin> set f"
  shows "dirname_scan (f @ slash # ys) m = Some (Suc (length ys))"
proof (cases f)
  case Nil
  with assms show ?thesis by simp
next
  case (Cons c cs)
  with assms have "c \<noteq> slash" "slash \<notin> set cs" by auto
  then show ?thesis using Cons by (simp add: dirname_scan_stops)
qed

lemma dirname_in_dir:
  assumes "d \<noteq> []" "f \<noteq> []" "slash \<notin> set f"
  shows "dirname (d @ slash # f) = (if d = ''/'' then ''//'' else d)"
proof -
  obtain c cs where d: "d = c # cs" using assms(1) by (cases d) auto
  have "rev (tl (d @ slash # f)) = rev f @ slash # rev cs" by (simp add: d)
  moreover have "dirname_scan (rev f @ slash # rev cs) True = Some (Suc (length (rev cs)))"
    using assms(2,3) by (intro dirname_scan_file) auto
  ultimately have "dirname_scan (rev (tl (d @ slash # f))) True = Some (length d)"
    by (simp add: d)
  then show ?thesis by (auto simp add: dirname_def d)
qed

lemma replace_seps_plain: "\<forall>c\<in>set s. \<not> is_sep c \<Longrightarrow> replace_seps (s @ t) = s @ replace_seps t"
  by (induction s) auto

lemma replace_seps_slash:
  assumes "s \<noteq> []" "\<forall>c\<in>set s. \<not> is_sep c"
  shows "replace_seps (slash # s @ t) = hyphen # s @ replace_seps t"
proof -
  obtain c cs where s: "s = c # cs" using assms(1) by (cases s) auto
  with assms(2) have "\<not> is_sep c" by simp
  then have "dropWhile is_sep (s @ t) = s @ t" by (simp add: s)
  then show ?thesis using assms(2) by (simp add: is_sep_def replace_seps_plain)
qed

lemma hyphens_of_joined:
  assumes "segs \<noteq> []"
    and "\<forall>s\<in>set segs. s \<noteq> [] \<and> hyphen \<notin> set s \<and> (\<forall>c\<in>set s. \<not> is_sep c)"
  shows "count_list (replace_seps (join_path segs)) hyphen = length segs - 1"
  using assms
proof (induction segs rule: join_path.induct)
  case 1
  then show ?case by simp
next
  case (2 s)
  then have "replace_seps s = s" using replace_seps_plain[of s "[]"] by simp
  with 2 show ?case by simp
next
  case (3 s t ss)
  then have s: "\<forall>c\<in>set s. \<not> is_sep c" "hyphen \<notin> set s" by auto
  have ih: "count_list (replace_seps (join_path (t # ss))) hyphen = length (t # ss) - 1"
    using 3 by simp
  obtain u where u: "join_path (t # ss) = t @ u" by (cases ss) auto
  have t: "t \<noteq> []" "\<forall>c\<in>set t. \<not> is_sep c" using 3 by auto
  have "replace_seps (join_path (s # t # ss)) = s @ replace_seps (slash # t @ u)"
    using s by (simp add: replace_seps_plain u)
  also have "\<dots> = s @ hyphen # t @ replace_seps u"
    using replace_seps_slash[OF t, of u] by simp
  finally have "count_list (replace_seps (join_path (s # t # ss))) hyphen
      = Suc (count_list (t @ replace_seps u) hyphen)"
    using s by simp
  moreover have "replace_seps (join_path (t # ss)) = t @ replace_seps u"
    using t by (simp add: u replace_seps_plain)
  ultimately show ?case using ih by simp
qed

lemma dropWhile_lead_first:
  assumes "c \<in> set s" "c \<noteq> dot" "slash \<notin> set s" "backslash \<notin> set s"
  shows "dropWhile is_lead (s @ t) = dropWhile is_lead s @ t" "dropWhile is_lead s \<noteq> []"
proof -
  have "\<not> is_lead c" using assms by (auto simp: is_lead_def)
  with assms(1) show "dropWhile is_lead (s @ t) = dropWhile is_lead s @ t"
    by (intro dropWhile_append1)
  from \<open>\<not> is_lead c\<close> assms(1) show "dropWhile is_lead s \<noteq> []"
    by (auto simp: dropWhile_eq_Nil_conv)
qed

text \<open>
  Claim C9, as amended. Take a source path \<open>d\<^sub>1/\<dots>/d\<^sub>N/file\<close> whose containing
  directory has \<open>N \<ge> 1\<close> segments (the file name is not counted). If no directory segment
  is empty or holds a slash, a backslash or a hyphen, the first one is not made of dots
  only, and the flattened token is not a conventional name, then the canonical name
  holds exactly \<open>N - 1\<close> hyphens.
\<close>

theorem nested_path_hyphens:
  assumes segs: "segs \<noteq> []" "list_all plain_segment segs"
    and first: "list_ex (\<lambda>c. c \<noteq> dot) (hd segs)"
    and name: "file \<noteq> []" "slash \<notin> set file"
    and conv: "\<not> conventional (flattened (join_path segs))"
  shows "count_list (transformPathToFilename (join_path segs @ ''/'' @ file)) hyphen
           = length segs - 1"
proof -
  obtain s rest where sr: "segs = s # rest" using segs(1) by (cases segs) auto
  obtain c where c: "c \<in> set s" "c \<noteq> dot" using first by (auto simp: sr list_ex_iff)
  have s: "s \<noteq> []" "slash \<notin> set s" "backslash \<notin> set s" "hyphen \<notin> set s"
    using segs(2) by (auto simp: sr plain_segment_def)
  obtain u where u: "join_path segs = s @ u"
      "join_path (dropWhile is_lead s # rest) = dropWhile is_lead s @ u"
    by (cases rest) (auto simp: sr)
  have hd_s: "hd s \<noteq> slash" using s(1,2) by (cases s) auto
  have "join_path segs \<noteq> ''/''" using s(1) hd_s by (cases s) (auto simp: u)
  moreover have "join_path segs \<noteq> []" using s(1) by (simp add: u)
  ultimately have d: "dirname (join_path segs @ ''/'' @ file) = join_path segs"
    using dirname_in_dir[of "join_path segs" "file"] name by simp
  have nodot: "join_path segs \<noteq> ''.''"
  proof
    assume "join_path segs = ''.''"
    then have "s @ u = ''.''" by (simp add: u)
    with s(1) have "s = ''.''" by (cases s) auto
    with c show False by simp
  qed
  have ne2: "join_path segs \<noteq> []" using s(1) by (simp add: u)
  have drop: "dropWhile is_lead (join_path segs) = join_path (dropWhile is_lead s # rest)"
    using dropWhile_lead_first(1)[OF c s(2,3)] by (simp add: u)
  have ne: "dropWhile is_lead s \<noteq> []" using dropWhile_lead_first(2)[OF c s(2,3)] .
  have sub: "set (dropWhile is_lead s) \<subseteq> set s" by (rule set_dropWhileD[THEN subsetI])
  have "count_list (replace_seps (join_path (dropWhile is_lead s # rest))) hyphen
          = length (dropWhile is_lead s # rest) - 1"
  proof (rule hyphens_of_joined)
    show "dropWhile is_lead s # rest \<noteq> []" by simp
    show "\<forall>x\<in>set (dropWhile is_lead s # rest).
            x \<noteq> [] \<and> hyphen \<notin> set x \<and> (\<forall>c\<in>set x. \<not> is_sep c)"
      using segs(2) ne sub s by (auto simp: sr plain_segment_def list_all_iff is_sep_def)
  qed
  then have tok: "count_list (flattened (join_path segs)) hyphen = length segs - 1"
    unfolding flattened_def drop by (simp add: sr)
  have "transformPathToFilename (join_path segs @ ''/'' @ file)
          = flattened (join_path segs) @ ''.json''"
    unfolding transformPathToFilename_def d Let_def flattened_def[symmetric]
    using conv nodot ne2 by simp
  then show ?thesis using tok by simp
qed

theorem nested_path_hyphens_witness:
  "list_all plain_segment [''apps'', ''backend''] \<and>
   list_ex (\<lambda>c. c \<noteq> dot) ''apps'' \<and>
   \<not> conventional (flattened (join_path [''apps'', ''backend''])) \<and>
   transformPathToFilename ''apps/backend/llmreadme.json'' = ''apps-backend.json'' \<and>
   count_list (transformPathToFilename ''apps/backend/llmreadme.json'') hyphen = 1"
  using nested_path_hyphens[of "[''apps'', ''backend'']" "''llmreadme.json''"]
  by (simp add: plain_segment_def flattened_def conventional_def is_lead_def is_sep_def
        transformPathToFilename_def dirname_def)

text \<open>
  Claim C9 as stated fails, whichever way the segments are counted. A directory name may
  hold backslashes (POSIX allows them, and this \<^verbatim>\<open>dirname\<close> does not split at them):
  the first path below has one directory segment and the file name, no hyphen anywhere,
  a token that is not conventional, and a canonical name with two hyphens. A first
  directory named \<^verbatim>\<open>...\<close> is stripped whole: the second path has two directory
  segments and the file name, and a canonical name with no hyphen.
\<close>

theorem hyphen_count_counterexamples:
  "hyphen \<notin> set (join_path [''a'' @ [backslash] @ ''b'' @ [backslash] @ ''c'', ''llmreadme.json'']) \<and>
   dirname (join_path [''a'' @ [backslash] @ ''b'' @ [backslash] @ ''c'', ''llmreadme.json''])
     = ''a'' @ [backslash] @ ''b'' @ [backslash] @ ''c'' \<and>
   \<not> conventional (flattened (''a'' @ [backslash] @ ''b'' @ [backslash] @ ''c'')) \<and>
   transformPathToFilename
       (join_path [''a'' @ [backslash] @ ''b'' @ [backslash] @ ''c'', ''llmreadme.json''])
     = ''a-b-c.json'' \<and>
   count_list (transformPathToFilename
       (join_path [''a'' @ [backslash] @ ''b'' @ [backslash] @ ''c'', ''llmreadme.json''])) hyphen = 2 \<and>
   hyphen \<notin> set (join_path [''...'', ''a'', ''llmreadme.json'']) \<and>
   dirname (join_path [''...'', ''a'', ''llmreadme.json'']) = join_path [''...'', ''a''] \<and>
   \<not> conventional (flattened (join_path [''...'', ''a''])) \<and>
   transformPathToFilename (join_path [''...'', ''a'', ''llmreadme.json'']) = ''a.json'' \<and>
   count_list (transformPathToFilename (join_path [''...'', ''a'', ''llmreadme.json''])) hyphen = 0"
  by (simp add: flattened_def conventional_def is_lead_def is_sep_def
        transformPathToFilename_def dirname_def)

section \<open>Properties of the command runner\<close>

lemma upt_head: "a < k \<Longrightarrow> [a..<k] = a # [Suc a..<k]"
  by (simp add: upt_conv_Cons)

lemma attempt_loop_succeeds:
  "a \<le> k \<Longrightarrow> k \<le> n \<Longrightarrow> (\<forall>i. a \<le> i \<longrightarrow> i < k \<longrightarrow> run i = Threw (errs i)) \<Longrightarrow>
   run k = Completed out \<Longrightarrow>
   attempt_loop run cmd t n a tr =
     (Inr out,
      tr @ concat (map (\<lambda>i. [Exec cmd t, Log WARN, Sleep (2 ^ (i - 1) * 1000)]) [a..<k])
         @ [Exec cmd t])"
proof (induction "k - a" arbitrary: a tr)
  case 0
  then have "a = k" by simp
  with 0 show ?case by (subst attempt_loop.simps) simp
next
  case (Suc d)
  then have lt: "a < k" and fail: "run a = Threw (errs a)" by auto
  have ih: "attempt_loop run cmd t n (Suc a) tr' =
     (Inr out,
      tr' @ concat (map (\<lambda>i. [Exec cmd t, Log WARN, Sleep (2 ^ (i - 1) * 1000)]) [Suc a..<k])
         @ [Exec cmd t])" for tr'
    using Suc by (intro Suc.hyps(1)) auto
  from lt Suc.prems have "a \<le> n" "a \<noteq> n" by auto
  then show ?case
    by (subst attempt_loop.simps) (simp add: fail ih upt_head[OF lt] Let_def)
qed

lemma attempt_loop_exhausts:
  "a \<le> n \<Longrightarrow> (\<forall>i. a \<le> i \<longrightarrow> i \<le> n \<longrightarrow> run i = Threw (errs i)) \<Longrightarrow>
   attempt_loop run cmd t n a tr =
     (Inl (CommandFailed n (err_message (errs n))),
      tr @ concat (map (\<lambda>i. [Exec cmd t, Log WARN, Sleep (2 ^ (i - 1) * 1000)]) [a..<n])
         @ [Exec cmd t, Log WARN])"
proof (induction "n - a" arbitrary: a tr)
  case 0
  then have "a = n" by simp
  with 0 show ?case by (subst attempt_loop.simps) (simp add: Let_def)
next
  case (Suc d)
  then have lt: "a < n" and fail: "run a = Threw (errs a)" by auto
  have ih: "attempt_loop run cmd t n (Suc a) tr' =
     (Inl (CommandFailed n (err_message (errs n))),
      tr' @ concat (map (\<lambda>i. [Exec cmd t, Log WARN, Sleep (2 ^ (i - 1) * 1000)]) [Suc a..<n])
         @ [Exec cmd t, Log WARN])" for tr'
    using Suc by (intro Suc.hyps(1)) auto
  from lt show ?case
    by (subst attempt_loop.simps) (simp add: fail ih upt_head[OF lt] Let_def)
qed

text \<open>
  Claim C4. \<open>run i\<close> is what the \<open>i\<close>-th attempt does, \<open>errs i\<close> the error it throws
  when it fails. (1) If the attempts before the \<open>k\<close>-th fail and the \<open>k\<close>-th, with
  \<open>1 \<le> k \<le> retries\<close>, succeeds, the runner returns the captured output; it has run the
  command \<open>k\<close> times and, after the failed attempt \<open>i < k\<close>, waited
  \<open>2 ^ (i - 1)\<close> times the base unit of 1000 ms. (2) If every attempt up to \<open>retries \<ge> 1\<close>
  fails, the runner raises after exactly \<open>retries\<close> runs of the command, with the message
  of the last attempt's error, having waited \<open>2 ^ (i - 1)\<close> units after each attempt but
  the last. (3) With a budget of 0 the command is never run, and the runner raises.
\<close>

theorem executeCommand_retry:
  "(1 \<le> k \<and> k \<le> retries \<and> (\<forall>i. 1 \<le> i \<longrightarrow> i < k \<longrightarrow> run i = Threw (errs i)) \<and>
      run k = Completed out \<longrightarrow>
    executeCommand run cmd t retries tr =
      (Inr out,
       tr @ concat (map (\<lambda>i. [Exec cmd t, Log WARN, Sleep (2 ^ (i - 1) * 1000)]) [1..<k])
          @ [Exec cmd t])) \<and>
   (1 \<le> retries \<and> (\<forall>i. 1 \<le> i \<longrightarrow> i \<le> retries \<longrightarrow> run i = Threw (errs i)) \<longrightarrow>
    executeCommand run cmd t retries tr =
      (Inl (CommandFailed retries (err_message (errs retries))),
       tr @ concat (map (\<lambda>i. [Exec cmd t, Log WARN, Sleep (2 ^ (i - 1) * 1000)]) [1..<retries])
          @ [Exec cmd t, Log WARN])) \<and>
   executeCommand run cmd t 0 tr = (Inl UnexpectedError, tr)"
proof (intro conjI impI)
  assume "1 \<le> k \<and> k \<le> retries \<and> (\<forall>i. 1 \<le> i \<longrightarrow> i < k \<longrightarrow> run i = Threw (errs i)) \<and>
      run k = Completed out"
  then show "executeCommand run cmd t retries tr =
      (Inr out,
       tr @ concat (map (\<lambda>i. [Exec cmd t, Log WARN, Sleep (2 ^ (i - 1) * 1000)]) [1..<k])
          @ [Exec cmd t])"
    unfolding executeCommand_def by (intro attempt_loop_succeeds) auto
next
  assume "1 \<le> retries \<and> (\<forall>i. 1 \<le> i \<longrightarrow> i \<le> retries \<longrightarrow> run i = Threw (errs i))"
  then show "executeCommand run cmd t retries tr =
      (Inl (CommandFailed retries (err_message (errs retries))),
       tr @ concat (map (\<lambda>i. [Exec cmd t, Log WARN, Sleep (2 ^ (i - 1) * 1000)]) [1..<retries])
          @ [Exec cmd t, Log WARN])"
    unfolding executeCommand_def by (intro attempt_loop_exhausts) auto
next
  show "executeCommand run cmd t 0 tr = (Inl UnexpectedError, tr)"
    unfolding executeCommand_def by (subst attempt_loop.simps) simp
qed

theorem executeCommand_retry_witness:
  "executeCommand (\<lambda>i. if i < 3 then Threw (ExecError ''1'' ''not yet'') else Completed ''done'')
      ''git add master-index/'' 60000 3 []
     = (Inr ''done'',
        [Exec ''git add master-index/'' 60000, Log WARN, Sleep 1000,
         Exec ''git add master-index/'' 60000, Log WARN, Sleep 2000,
         Exec ''git add master-index/'' 60000]) \<and>
   executeCommand (\<lambda>i. Threw (ExecError ''ETIMEDOUT'' (if i = 3 then ''third'' else ''earlier'')))
      ''git add master-index/'' 60000 3 []
     = (Inl (CommandFailed 3 ''third''),
        [Exec ''git add master-index/'' 60000, Log WARN, Sleep 1000,
         Exec ''git add master-index/'' 60000, Log WARN, Sleep 2000,
         Exec ''git add master-index/'' 60000, Log WARN])"
  using
    executeCommand_retry[of 3 3
      "\<lambda>i. if i < 3 then Threw (ExecError ''1'' ''not yet'') else Completed ''done''"
      "\<lambda>i. ExecError ''1'' ''not yet''" "''done''" "''git add master-index/''" 60000 "[]"]
    executeCommand_retry[of 3 3
      "\<lambda>i. Threw (ExecError ''ETIMEDOUT'' (if i = 3 then ''third'' else ''earlier''))"
      "\<lambda>i. ExecError ''ETIMEDOUT'' (if i = 3 then ''third'' else ''earlier'')" "''done''"
      "''git add master-index/''" 60000 "[]"]
  by (simp add: upt_rec)

section \<open>Properties of the index merger\<close>

text \<open>
  Claim C3 says that an artifact whose source file is gone, or whose relocation fails
  entirely, is classified as skipped and not as new or updated, and that the counters
  show it. The loop never stops at such an artifact and logs no NEW or UPDATE line for
  it, but it has already added one to \<^verbatim>\<open>filesCopied\<close> or \<^verbatim>\<open>filesUpdated\<close> before
  it tries the move, and does not take it back. In a batch of one artifact: when the
  source file is missing, and when rename and copy are both refused, the summary is
  found 1, new 1, updated 0, skipped 1, and nothing has reached the master index.
\<close>

theorem skipped_artifact_is_also_counted_new:
  "(case processLlmReadmeFiles no_faults ''/repo''
          \<lparr>files = Map.empty, dirs = {''/repo/master-index''}\<rparr> [''lib/llmreadme.json''] of
      Inl e \<Rightarrow> False
    | Inr m \<Rightarrow>
        cnt m = \<lparr>filesFound = 1, filesCopied = 1, filesUpdated = 0, filesSkipped = 1\<rparr> \<and>
        reports m = [SourceMissing ''/repo/lib/llmreadme.json''] \<and>
        files (disk m) ''/repo/master-index/lib.json'' = None) \<and>
   (case processLlmReadmeFiles
          (no_faults\<lparr>rename_fails := (\<lambda>src dst. True), copy_fails := (\<lambda>src dst. True)\<rparr>) ''/repo''
          \<lparr>files = [''/repo/lib/llmreadme.json'' \<mapsto> ''A''], dirs = {''/repo/master-index''}\<rparr>
          [''lib/llmreadme.json''] of
      Inl e \<Rightarrow> False
    | Inr m \<Rightarrow>
        cnt m = \<lparr>filesFound = 1, filesCopied = 1, filesUpdated = 0, filesSkipped = 1\<rparr> \<and>
        reports m = [MoveFailed ''lib/llmreadme.json''] \<and>
        files (disk m) ''/repo/master-index/lib.json'' = None)"
  by (simp add: processLlmReadmeFiles_def ensureDirectoryExists_def existsSync_def
        MASTER_INDEX_DIR_def path_join_def process_all_def process_file_def excludeDirs_def
        startsWith_def transformPathToFilename_def dirname_def is_lead_def is_sep_def
        conventional_def skip_def Let_def no_faults_def renameSync_def fallback_def
        copyFileSync_def)

lemma transform_in_directory:
  assumes "f \<noteq> []" "slash \<notin> set f" "g \<noteq> []" "slash \<notin> set g"
  shows "transformPathToFilename (in_directory d f) = transformPathToFilename (in_directory d g)"
proof (cases "d = []")
  case True
  with assms show ?thesis
    by (simp add: in_directory_def transformPathToFilename_def dirname_no_slash)
next
  case False
  with assms show ?thesis
    by (simp add: in_directory_def transformPathToFilename_def dirname_in_dir)
qed

lemma split_last_slash:
  "slash \<notin> set f \<Longrightarrow> slash \<notin> set g \<Longrightarrow> xs @ slash # f = ys @ slash # g \<Longrightarrow> xs = ys \<and> f = g"
proof (induction xs arbitrary: ys)
  case Nil
  then show ?case by (cases ys) auto
next
  case (Cons x xs)
  then show ?case by (cases ys) auto
qed

lemma transform_nonempty: "transformPathToFilename x \<noteq> []"
  by (simp add: transformPathToFilename_def Let_def)

text \<open>Every path below the root starts with the same prefix.\<close>

lemma joined_paths:
  "\<exists>pre. (\<forall>b. path_join root b = pre @ b) \<and>
     (\<forall>t. path_join (MASTER_INDEX_DIR root) t = pre @ ''master-index'' @ slash # t) \<and>
     MASTER_INDEX_DIR root = pre @ ''master-index''"
proof (cases "root = []")
  case True
  then show ?thesis
    by (intro exI[of _ "[]"]) (simp add: path_join_def MASTER_INDEX_DIR_def)
next
  case False
  show ?thesis
  proof (cases "last root = slash")
    case True
    with False show ?thesis
      by (intro exI[of _ root]) (simp add: path_join_def MASTER_INDEX_DIR_def)
  next
    case no: False
    with False show ?thesis
      by (intro exI[of _ "root @ ''/''"]) (simp add: path_join_def MASTER_INDEX_DIR_def)
  qed
qed

lemma source_is_not_destination:
  assumes "name = ''llmreadme.json'' \<or> name = ''llmreadme-enhanced.json''"
  shows "path_join root (in_directory d name)
           \<noteq> path_join (MASTER_INDEX_DIR root) (transformPathToFilename (in_directory d name))"
proof
  let ?t = "transformPathToFilename (in_directory d name)"
  assume eq: "path_join root (in_directory d name) = path_join (MASTER_INDEX_DIR root) ?t"
  obtain pre where pre: "\<And>b. path_join root b = pre @ b"
    "\<And>t. path_join (MASTER_INDEX_DIR root) t = pre @ ''master-index'' @ slash # t"
    using joined_paths[of root] by blast
  have nm: "slash \<notin> set name" "name \<noteq> []" using assms by auto
  from eq have eq': "in_directory d name = ''master-index'' @ slash # ?t"
    by (simp add: pre)
  show False
  proof (cases "d = []")
    case True
    with eq' have "name = ''master-index'' @ slash # ?t" by (simp add: in_directory_def)
    from arg_cong[OF this, of set] nm(1) show False by auto
  next
    case False
    with eq' have "d @ slash # name = ''master-index'' @ slash # ?t"
      by (simp add: in_directory_def)
    from split_last_slash[OF nm(1) transform_no_slash this]
    have "d = ''master-index''" "?t = name" by auto
    then show False using assms
      by (auto simp: in_directory_def transformPathToFilename_def dirname_def is_lead_def
            is_sep_def conventional_def)
  qed
qed

lemma artifact_names_differ:
  "path_join root (in_directory d ''llmreadme.json'')
     \<noteq> path_join root (in_directory d ''llmreadme-enhanced.json'')"
proof -
  obtain pre where "\<And>b. path_join root b = pre @ b"
    using joined_paths[of root] by blast
  then show ?thesis by (simp add: in_directory_def)
qed

lemma dirname_destination:
  "dirname (path_join (MASTER_INDEX_DIR root) (transformPathToFilename x)) = MASTER_INDEX_DIR root"
proof -
  obtain pre where pre:
    "\<And>t. path_join (MASTER_INDEX_DIR root) t = pre @ ''master-index'' @ slash # t"
    "MASTER_INDEX_DIR root = pre @ ''master-index''"
    using joined_paths[of root] by blast
  have "dirname ((pre @ ''master-index'') @ slash # transformPathToFilename x)
          = (if pre @ ''master-index'' = ''/'' then ''//'' else pre @ ''master-index'')"
    by (intro dirname_in_dir) (simp_all add: transform_nonempty transform_no_slash)
  moreover have "pre @ ''master-index'' \<noteq> ''/''"
    by (cases pre) auto
  ultimately have "dirname ((pre @ ''master-index'') @ slash # transformPathToFilename x)
          = pre @ ''master-index''"
    by simp
  moreover have "path_join (MASTER_INDEX_DIR root) (transformPathToFilename x)
          = (pre @ ''master-index'') @ slash # transformPathToFilename x"
    by (simp add: pre(1))
  ultimately show ?thesis by (simp only: pre(2))
qed

text \<open>One round of the loop on an artifact that is there and whose rename goes through.\<close>

lemma process_file_moved:
  assumes "\<not> list_ex (\<lambda>dir. includes_str rel dir) excludeDirs"
    and "files (disk m) (path_join root rel) = Some c"
    and "MASTER_INDEX_DIR root \<in> dirs (disk m)"
    and "\<not> rename_fails flt (path_join root rel)
            (path_join (MASTER_INDEX_DIR root) (transformPathToFilename rel))"
  shows "process_file flt root m rel =
     (let dest = path_join (MASTER_INDEX_DIR root) (transformPathToFilename rel);
          present = existsSync (disk m) dest in
      m\<lparr>disk := (disk m)\<lparr>files := (files (disk m))(path_join root rel := None, dest \<mapsto> c)\<rparr>,
        cnt := (cnt m)\<lparr>filesFound := filesFound (cnt m) + 1,
                      filesCopied := filesCopied (cnt m) + (if present then 0 else 1),
                      filesUpdated := filesUpdated (cnt m) + (if present then 1 else 0)\<rparr>,
        reports := reports m @
          [Moved (if present then UPDATE else NEW) rel (transformPathToFilename rel)]\<rparr>)"
  using assms
  by (simp add: process_file_def Let_def dirname_destination existsSync_def renameSync_def)

text \<open>
  No round of the loop removes a file other than its own source, and none removes a
  directory.
\<close>

lemma disk_skip [simp]: "disk (skip r m) = disk m"
  by (simp add: skip_def)

lemma mkdir_keeps:
  "mkdirSync flt fs d = Inr fs' \<Longrightarrow> files fs' = files fs \<and> dirs fs \<subseteq> dirs fs'"
  by (auto simp: mkdirSync_def split: if_splits)

lemma rename_keeps:
  "renameSync flt fs src dst = Inr fs' \<Longrightarrow>
     dirs fs' = dirs fs \<and> (p \<noteq> src \<longrightarrow> files fs p \<noteq> None \<longrightarrow> files fs' p \<noteq> None)"
  by (auto simp: renameSync_def split: option.splits if_splits)

lemma fallback_keeps:
  "dirs (disk (fallback flt a rel t src dst m)) = dirs (disk m) \<and>
   (p \<noteq> src \<longrightarrow> files (disk m) p \<noteq> None \<longrightarrow>
      files (disk (fallback flt a rel t src dst m)) p \<noteq> None)"
  by (auto simp: fallback_def copyFileSync_def unlinkSync_def
        split: sum.splits option.splits if_splits)

lemma process_file_keeps:
  "(p \<noteq> path_join root rel \<longrightarrow> files (disk m) p \<noteq> None \<longrightarrow>
      files (disk (process_file flt root m rel)) p \<noteq> None) \<and>
   (x \<in> dirs (disk m) \<longrightarrow> x \<in> dirs (disk (process_file flt root m rel)))"
proof (cases "list_ex (\<lambda>dir. includes_str rel dir) excludeDirs")
  case True
  then show ?thesis by (simp add: process_file_def)
next
  case False
  define src where "src = path_join root rel"
  define t where "t = transformPathToFilename rel"
  define dst where "dst = path_join (MASTER_INDEX_DIR root) t"
  define a where "a = (if existsSync (disk m) dst then UPDATE else NEW)"
  define m2 where "m2 = (if existsSync (disk m) dst
      then m\<lparr>cnt := (cnt m)\<lparr>filesFound := filesFound (cnt m) + 1,
                             filesUpdated := filesUpdated (cnt m) + 1\<rparr>\<rparr>
      else m\<lparr>cnt := (cnt m)\<lparr>filesFound := filesFound (cnt m) + 1,
                             filesCopied := filesCopied (cnt m) + 1\<rparr>\<rparr>)"
  have d2: "disk m2 = disk m" by (simp add: m2_def)
  define r where "r = (if \<not> existsSync (disk m) (dirname dst) then mkdirSync flt (disk m) (dirname dst)
      else Inr (disk m))"
  have pf: "process_file flt root m rel =
      (case r of
         Inl e \<Rightarrow> fallback flt a rel t src dst m2
       | Inr fs1 \<Rightarrow>
           if \<not> existsSync fs1 src then skip (SourceMissing src) (m2\<lparr>disk := fs1\<rparr>)
           else (case renameSync flt fs1 src dst of
                   Inr fs2 \<Rightarrow> m2\<lparr>disk := fs2, reports := reports m2 @ [Moved a rel t]\<rparr>
                 | Inl e \<Rightarrow> fallback flt a rel t src dst (m2\<lparr>disk := fs1\<rparr>)))"
    using False
    by (auto simp: process_file_def Let_def src_def t_def dst_def a_def m2_def r_def
          split: sum.splits)
  show ?thesis
  proof (cases r)
    case (Inl e)
    then show ?thesis
      using fallback_keeps[of flt a rel t src dst m2 p] by (simp add: pf d2 src_def)
  next
    case (Inr fs1)
    then have k1: "files fs1 = files (disk m)" "dirs (disk m) \<subseteq> dirs fs1"
      using mkdir_keeps[of flt "disk m" "dirname dst" fs1]
      by (auto simp: r_def split: if_splits)
    show ?thesis
    proof (cases "existsSync fs1 src")
      case False
      then show ?thesis using k1 by (auto simp: pf Inr)
    next
      case True
      show ?thesis
      proof (cases "renameSync flt fs1 src dst")
        case (Inl e)
        then show ?thesis
          using True k1 fallback_keeps[of flt a rel t src dst "m2\<lparr>disk := fs1\<rparr>" p]
          by (auto simp: pf Inr src_def)
      next
        case (Inr fs2)
        then show ?thesis
          using True k1 rename_keeps[OF Inr, of p]
          by (auto simp: pf \<open>r = Inr fs1\<close> src_def)
      qed
    qed
  qed
qed

lemma process_all_keeps:
  "(\<forall>rel\<in>set rels. p \<noteq> path_join root rel) \<Longrightarrow> files (disk m) p \<noteq> None \<Longrightarrow>
     files (disk (process_all flt root m rels)) p \<noteq> None"
proof (induction rels arbitrary: m)
  case Nil
  then show ?case by (simp add: process_all_def)
next
  case (Cons rel rels)
  have "files (disk (process_file flt root m rel)) p \<noteq> None"
    using Cons.prems process_file_keeps[of p root rel m flt] by simp
  then have "files (disk (process_all flt root (process_file flt root m rel) rels)) p \<noteq> None"
    using Cons.prems by (intro Cons.IH) auto
  then show ?case by (simp add: process_all_def)
qed

lemma process_all_keeps_dirs:
  "x \<in> dirs (disk m) \<Longrightarrow> x \<in> dirs (disk (process_all flt root m rels))"
proof (induction rels arbitrary: m)
  case Nil
  then show ?case by (simp add: process_all_def)
next
  case (Cons rel rels)
  have "x \<in> dirs (disk (process_file flt root m rel))"
    using Cons.prems process_file_keeps[of _ root rel m flt x] by simp
  then have "x \<in> dirs (disk (process_all flt root (process_file flt root m rel) rels))"
    by (rule Cons.IH)
  then show ?case by (simp add: process_all_def)
qed

lemma process_all_append:
  "process_all flt root m (xs @ ys) = process_all flt root (process_all flt root m xs) ys"
  by (simp add: process_all_def)

lemma process_all_Cons:
  "process_all flt root m (x # xs) = process_all flt root (process_file flt root m x) xs"
  by (simp add: process_all_def)

lemmas merger_defs = in_directory_def sample_merger_def collision_merger_def no_faults_def
  excludeDirs_def startsWith_def path_join_def MASTER_INDEX_DIR_def existsSync_def
  transformPathToFilename_def dirname_def is_lead_def is_sep_def conventional_def
  absolute_directory_def normal_relative_def proper_segment_def

text \<open>
  Claim C10, as amended. Take a batch of normalised relative paths, below an absolute
  project root, in which both artifacts of a directory \<open>d\<close> occur, in either order,
  with any paths before, between and after them. The transform maps both to the same
  canonical name. When neither path contains an excluded name, \<^verbatim>\<open>master-index\<close>
  exists, each source file is there when its turn comes, neither rename is refused and no
  path between the two is the destination itself, the loop moves both to that one
  destination: after the earlier one the destination holds its content, after the later
  one it holds the content of the later one, and both sources are gone. Each adds one to
  the files found. The later one is always counted as UPDATE. The earlier one is counted
  as NEW when the destination does not exist at the moment it is processed, and as UPDATE
  when it does: left there by an earlier run, or written earlier in the same batch from
  another directory with the same canonical name.
\<close>

theorem same_directory_same_destination:
  assumes batch: "llmReadmeFiles = pre @ first # mid @ second # post"
    and order:
      "(first, second) =
          (in_directory d ''llmreadme.json'', in_directory d ''llmreadme-enhanced.json'') \<or>
       (first, second) =
          (in_directory d ''llmreadme-enhanced.json'', in_directory d ''llmreadme.json'')"
    and paths: "absolute_directory root" "list_all normal_relative llmReadmeFiles"
    and kept: "\<not> list_ex (\<lambda>dir. includes_str first dir) excludeDirs"
      "\<not> list_ex (\<lambda>dir. includes_str second dir) excludeDirs"
    and index: "MASTER_INDEX_DIR root \<in> dirs (disk m)"
    and dest: "dest = path_join (MASTER_INDEX_DIR root) (transformPathToFilename first)"
    and between: "\<forall>x\<in>set mid. path_join root x \<noteq> dest"
    and m0: "m0 = process_all flt root m pre"
    and m1: "m1 = process_file flt root m0 first"
    and m2: "m2 = process_all flt root m1 mid"
    and m3: "m3 = process_file flt root m2 second"
    and there: "files (disk m0) (path_join root first) = Some c1"
      "files (disk m2) (path_join root second) = Some c2"
    and moves: "\<not> rename_fails flt (path_join root first) dest"
      "\<not> rename_fails flt (path_join root second) dest"
    and present: "present = existsSync (disk m0) dest"
  shows "transformPathToFilename second = transformPathToFilename first \<and>
         process_all flt root m llmReadmeFiles = process_all flt root m3 post \<and>
         files (disk m1) dest = Some c1 \<and>
         files (disk m1) (path_join root first) = None \<and>
         cnt m1 = (cnt m0)\<lparr>filesFound := filesFound (cnt m0) + 1,
                          filesCopied := filesCopied (cnt m0) + (if present then 0 else 1),
                          filesUpdated := filesUpdated (cnt m0) + (if present then 1 else 0)\<rparr> \<and>
         reports m1 = reports m0 @
           [Moved (if present then UPDATE else NEW) first (transformPathToFilename first)] \<and>
         files (disk m3) dest = Some c2 \<and>
         files (disk m3) (path_join root second) = None \<and>
         cnt m3 = (cnt m2)\<lparr>filesFound := filesFound (cnt m2) + 1,
                          filesUpdated := filesUpdated (cnt m2) + 1\<rparr> \<and>
         reports m3 = reports m2 @ [Moved UPDATE second (transformPathToFilename first)]"
proof -
  have same: "transformPathToFilename second = transformPathToFilename first"
    using order by (auto intro: transform_in_directory)
  have ne: "path_join root first \<noteq> dest" "path_join root second \<noteq> dest"
    using order source_is_not_destination[of "''llmreadme.json''" root d]
      source_is_not_destination[of "''llmreadme-enhanced.json''" root d] same
    by (auto simp: dest)
  have run: "process_all flt root m llmReadmeFiles = process_all flt root m3 post"
    by (simp add: batch process_all_append process_all_Cons m0 m1 m2 m3)
  have index0: "MASTER_INDEX_DIR root \<in> dirs (disk m0)"
    unfolding m0 using index by (rule process_all_keeps_dirs)
  have s1: "m1 = m0\<lparr>disk := (disk m0)\<lparr>files :=
                      (files (disk m0))(path_join root first := None, dest \<mapsto> c1)\<rparr>,
        cnt := (cnt m0)\<lparr>filesFound := filesFound (cnt m0) + 1,
                      filesCopied := filesCopied (cnt m0) + (if present then 0 else 1),
                      filesUpdated := filesUpdated (cnt m0) + (if present then 1 else 0)\<rparr>,
        reports := reports m0 @
          [Moved (if present then UPDATE else NEW) first (transformPathToFilename first)]\<rparr>"
    unfolding m1
    using process_file_moved[OF kept(1) there(1) index0, of flt] moves(1)
    by (simp add: dest present Let_def)
  have index1: "MASTER_INDEX_DIR root \<in> dirs (disk m1)" using index0 by (simp add: s1)
  have index2: "MASTER_INDEX_DIR root \<in> dirs (disk m2)"
    unfolding m2 using index1 by (rule process_all_keeps_dirs)
  have "files (disk m1) dest \<noteq> None" using ne by (simp add: s1)
  then have "files (disk m2) dest \<noteq> None"
    unfolding m2 using between by (intro process_all_keeps) auto
  then have ex2: "existsSync (disk m2) dest" by (simp add: existsSync_def)
  have moves2: "\<not> rename_fails flt (path_join root second)
                  (path_join (MASTER_INDEX_DIR root) (transformPathToFilename second))"
    using moves(2) by (simp add: dest same)
  have s3: "m3 = m2\<lparr>disk := (disk m2)\<lparr>files :=
                        (files (disk m2))(path_join root second := None, dest \<mapsto> c2)\<rparr>,
        cnt := (cnt m2)\<lparr>filesFound := filesFound (cnt m2) + 1,
                      filesCopied := filesCopied (cnt m2),
                      filesUpdated := filesUpdated (cnt m2) + 1\<rparr>,
        reports := reports m2 @ [Moved UPDATE second (transformPathToFilename first)]\<rparr>"
    unfolding m3
    using process_file_moved[OF kept(2) there(2) index2 moves2] ex2
    by (simp add: same dest[symmetric] Let_def)
  show ?thesis
    using ne by (simp add: same run s1 s3)
qed

theorem same_directory_same_destination_witness:
  "absolute_directory ''/repo'' \<and>
   list_all normal_relative [''lib/llmreadme.json'', ''lib/llmreadme-enhanced.json''] \<and>
   \<not> existsSync (disk sample_merger) ''/repo/master-index/lib.json'' \<and>
   transformPathToFilename ''lib/llmreadme-enhanced.json'' = ''lib.json'' \<and>
   transformPathToFilename ''lib/llmreadme.json'' = ''lib.json'' \<and>
   files (disk (process_all no_faults ''/repo'' sample_merger
       [''lib/llmreadme.json'', ''lib/llmreadme-enhanced.json''])) ''/repo/master-index/lib.json''
     = Some ''B'' \<and>
   cnt (process_all no_faults ''/repo'' sample_merger
       [''lib/llmreadme.json'', ''lib/llmreadme-enhanced.json''])
     = \<lparr>filesFound = 2, filesCopied = 1, filesUpdated = 1, filesSkipped = 0\<rparr> \<and>
   list_all normal_relative
     [''src/utils/llmreadme.json'', ''src-utils/llmreadme-enhanced.json'',
      ''src-utils/llmreadme.json''] \<and>
   existsSync (disk (process_all no_faults ''/repo'' collision_merger [''src/utils/llmreadme.json'']))
     ''/repo/master-index/src-utils.json'' \<and>
   files (disk (process_all no_faults ''/repo'' collision_merger
       [''src/utils/llmreadme.json'', ''src-utils/llmreadme-enhanced.json'',
        ''src-utils/llmreadme.json''])) ''/repo/master-index/src-utils.json''
     = Some ''S'' \<and>
   cnt (process_all no_faults ''/repo'' collision_merger
       [''src/utils/llmreadme.json'', ''src-utils/llmreadme-enhanced.json'',
        ''src-utils/llmreadme.json''])
     = \<lparr>filesFound = 3, filesCopied = 1, filesUpdated = 2, filesSkipped = 0\<rparr>"
proof -
  define a1 where "a1 = process_file no_faults ''/repo'' sample_merger ''lib/llmreadme.json''"
  have a1: "a1 =
    sample_merger\<lparr>disk := (disk sample_merger)\<lparr>files :=
         (files (disk sample_merger))(''/repo/lib/llmreadme.json'' := None,
            ''/repo/master-index/lib.json'' \<mapsto> ''A'')\<rparr>,
       cnt := \<lparr>filesFound = 1, filesCopied = 1, filesUpdated = 0, filesSkipped = 0\<rparr>,
       reports := [Moved NEW ''lib/llmreadme.json'' ''lib.json'']\<rparr>"
    unfolding a1_def by (simp add: merger_defs process_file_def renameSync_def Let_def)
  define a2 where "a2 = process_file no_faults ''/repo'' a1 ''lib/llmreadme-enhanced.json''"
  have A: "files (disk a2) ''/repo/master-index/lib.json'' = Some ''B'' \<and>
     cnt a2 = \<lparr>filesFound = 2, filesCopied = 1, filesUpdated = 1, filesSkipped = 0\<rparr>"
    using same_directory_same_destination[where llmReadmeFiles =
        "[''lib/llmreadme.json'', ''lib/llmreadme-enhanced.json'']"
      and pre = "[]" and first = "''lib/llmreadme.json''" and mid = "[]"
      and second = "''lib/llmreadme-enhanced.json''" and post = "[]" and d = "''lib''"
      and root = "''/repo''" and m = sample_merger and flt = no_faults
      and dest = "''/repo/master-index/lib.json''"
      and ?m0.0 = sample_merger and ?m1.0 = a1 and ?m2.0 = a1 and ?m3.0 = a2
      and ?c1.0 = "''A''" and ?c2.0 = "''B''" and present = False]
      a1_def[symmetric] a2_def[symmetric]
    by (simp add: merger_defs process_all_def a1)
  have A': "process_all no_faults ''/repo'' sample_merger
       [''lib/llmreadme.json'', ''lib/llmreadme-enhanced.json''] = a2"
    by (simp add: process_all_def a1_def a2_def)
  define b0 where "b0 = process_file no_faults ''/repo'' collision_merger ''src/utils/llmreadme.json''"
  have b0: "b0 =
    collision_merger\<lparr>disk := (disk collision_merger)\<lparr>files :=
         (files (disk collision_merger))(''/repo/src/utils/llmreadme.json'' := None,
            ''/repo/master-index/src-utils.json'' \<mapsto> ''U'')\<rparr>,
       cnt := \<lparr>filesFound = 1, filesCopied = 1, filesUpdated = 0, filesSkipped = 0\<rparr>,
       reports := [Moved NEW ''src/utils/llmreadme.json'' ''src-utils.json'']\<rparr>"
    unfolding b0_def by (simp add: merger_defs process_file_def renameSync_def Let_def)
  define b1 where "b1 = process_file no_faults ''/repo'' b0 ''src-utils/llmreadme-enhanced.json''"
  have b1: "b1 =
    b0\<lparr>disk := (disk b0)\<lparr>files :=
         (files (disk b0))(''/repo/src-utils/llmreadme-enhanced.json'' := None,
            ''/repo/master-index/src-utils.json'' \<mapsto> ''E'')\<rparr>,
       cnt := \<lparr>filesFound = 2, filesCopied = 1, filesUpdated = 1, filesSkipped = 0\<rparr>,
       reports := reports b0 @
         [Moved UPDATE ''src-utils/llmreadme-enhanced.json'' ''src-utils.json'']\<rparr>"
    unfolding b1_def by (simp add: b0 merger_defs process_file_def renameSync_def Let_def)
  define b2 where "b2 = process_file no_faults ''/repo'' b1 ''src-utils/llmreadme.json''"
  have B: "files (disk b2) ''/repo/master-index/src-utils.json'' = Some ''S'' \<and>
     cnt b2 = \<lparr>filesFound = 3, filesCopied = 1, filesUpdated = 2, filesSkipped = 0\<rparr>"
    using same_directory_same_destination[where llmReadmeFiles =
        "[''src/utils/llmreadme.json'', ''src-utils/llmreadme-enhanced.json'',
          ''src-utils/llmreadme.json'']"
      and pre = "[''src/utils/llmreadme.json'']"
      and first = "''src-utils/llmreadme-enhanced.json''" and mid = "[]"
      and second = "''src-utils/llmreadme.json''" and post = "[]" and d = "''src-utils''"
      and root = "''/repo''" and m = collision_merger and flt = no_faults
      and dest = "''/repo/master-index/src-utils.json''"
      and ?m0.0 = b0 and ?m1.0 = b1 and ?m2.0 = b1 and ?m3.0 = b2
      and ?c1.0 = "''E''" and ?c2.0 = "''S''" and present = True]
      b0_def[symmetric] b1_def[symmetric] b2_def[symmetric]
    by (simp add: merger_defs process_all_def b0 b1)
  have B': "process_all no_faults ''/repo'' collision_merger
       [''src/utils/llmreadme.json'', ''src-utils/llmreadme-enhanced.json'',
        ''src-utils/llmreadme.json''] = b2"
    "process_all no_faults ''/repo'' collision_merger [''src/utils/llmreadme.json''] = b0"
    by (simp_all add: process_all_def b0_def b1_def b2_def)
  have C: "absolute_directory ''/repo'' \<and>
   list_all normal_relative [''lib/llmreadme.json'', ''lib/llmreadme-enhanced.json''] \<and>
   \<not> existsSync (disk sample_merger) ''/repo/master-index/lib.json'' \<and>
   transformPathToFilename ''lib/llmreadme-enhanced.json'' = ''lib.json'' \<and>
   transformPathToFilename ''lib/llmreadme.json'' = ''lib.json'' \<and>
   list_all normal_relative
     [''src/utils/llmreadme.json'', ''src-utils/llmreadme-enhanced.json'',
      ''src-utils/llmreadme.json''] \<and>
   existsSync (disk b0) ''/repo/master-index/src-utils.json''"
    by (simp add: merger_defs b0)
  show ?thesis
    unfolding A' B' using A B C by blast
qed


text \<open>
  Claim C10 as stated fails where the destination is already in the master index, as it
  is from the second run of the hook on: both artifacts of \<^verbatim>\<open>lib\<close> are then counted
  as updated, and none as new.
\<close>

theorem pair_counted_twice_as_update:
  "(case processLlmReadmeFiles no_faults ''/repo''
          \<lparr>files = [''/repo/lib/llmreadme.json'' \<mapsto> ''A'',
                    ''/repo/lib/llmreadme-enhanced.json'' \<mapsto> ''B'',
                    ''/repo/master-index/lib.json'' \<mapsto> ''old''],
           dirs = {''/repo/master-index''}\<rparr>
          [''lib/llmreadme-enhanced.json'', ''lib/llmreadme.json''] of
      Inl e \<Rightarrow> False
    | Inr m \<Rightarrow>
        cnt m = \<lparr>filesFound = 2, filesCopied = 0, filesUpdated = 2, filesSkipped = 0\<rparr> \<and>
        files (disk m) ''/repo/master-index/lib.json'' = Some ''A'')"
  by (simp add: processLlmReadmeFiles_def ensureDirectoryExists_def existsSync_def
        MASTER_INDEX_DIR_def path_join_def process_all_def process_file_def excludeDirs_def
        startsWith_def transformPathToFilename_def dirname_def is_lead_def is_sep_def
        conventional_def skip_def Let_def no_faults_def renameSync_def fallback_def
        copyFileSync_def)

section \<open>Properties of the target directory resolver\<close>

lemma executeCommand_once:
  "executeCommand run cmd t (Suc 0) tr =
     (case run (Suc 0) of
        Completed out \<Rightarrow> (Inr out, tr @ [Exec cmd t])
      | Threw e \<Rightarrow> (Inl (CommandFailed (Suc 0) (err_message e)), tr @ [Exec cmd t, Log WARN]))"
  unfolding executeCommand_def
  by (subst attempt_loop.simps) (simp add: Let_def split: exec_result.splits)

lemma getStagedFiles_total:
  "\<exists>staged. \<forall>tr. \<exists>tr'. getStagedFiles cfg sh tr = (Inr staged, tr')"
  by (cases "sh ''git diff --name-only --cached'' 1")
     (auto simp: getStagedFiles_def executeCommand_once try_catch_def Let_def)

lemma getStagedFiles_fails:
  "sh ''git diff --name-only --cached'' 1 = Threw e \<Longrightarrow>
   getStagedFiles cfg sh tr =
     (Inr [], tr @ [Exec ''git diff --name-only --cached'' (cfg_timeout cfg), Log WARN, Log WARN])"
  by (simp add: getStagedFiles_def executeCommand_once try_catch_def Let_def)

lemma isDirectoryEmpty_total: "\<exists>b tr'. isDirectoryEmpty view p tr = (Inr b, tr')"
  by (auto simp: isDirectoryEmpty_def try_catch_def split: sum.splits)

text \<open>
  Claim C6. The resolver never raises: whatever the configuration, the file system and
  the outcome of the git command, it returns a list of directories. If explicit
  directories are configured it returns exactly them, and touches nothing. Otherwise, if
  the query for the staged files fails, or if no parent directory of a staged file is
  left after the excluded ones are dropped, it returns the whole-tree scope \<^verbatim>\<open>.\<close>.
\<close>

theorem resolver_never_raises:
  "(\<exists>ds. fst (determineTargetDirectories cfg view sh root tr) = Inr ds) \<and>
   (targetDirectories cfg \<noteq> [] \<longrightarrow>
      determineTargetDirectories cfg view sh root tr = (Inr (targetDirectories cfg), tr)) \<and>
   (targetDirectories cfg = [] \<and> sh ''git diff --name-only --cached'' 1 = Threw e \<longrightarrow>
      fst (determineTargetDirectories cfg view sh root tr) = Inr [''.'']) \<and>
   (targetDirectories cfg = [] \<and> fst (getStagedFiles cfg sh []) = Inr staged \<and>
      filter analysed (foldl add_target [] staged) = [] \<longrightarrow>
      fst (determineTargetDirectories cfg view sh root tr) = Inr [''.''])"
proof -
  obtain staged' where st: "\<And>tr. \<exists>tr'. getStagedFiles cfg sh tr = (Inr staged', tr')"
    using getStagedFiles_total[of cfg sh] by blast
  obtain b tr1 where emp: "isDirectoryEmpty view (path_join root ''master-index'') tr = (Inr b, tr1)"
    using isDirectoryEmpty_total by blast
  obtain tr2 where st2: "getStagedFiles cfg sh tr1 = (Inr staged', tr2)" using st by blast
  have 1: "\<exists>ds. fst (determineTargetDirectories cfg view sh root tr) = Inr ds"
    by (cases b) (simp_all add: determineTargetDirectories_def Let_def emp st2 try_catch_def)
  have 2: "targetDirectories cfg \<noteq> [] \<longrightarrow>
      determineTargetDirectories cfg view sh root tr = (Inr (targetDirectories cfg), tr)"
    by (simp add: determineTargetDirectories_def)
  have 3: "targetDirectories cfg = [] \<and> sh ''git diff --name-only --cached'' 1 = Threw e \<longrightarrow>
      fst (determineTargetDirectories cfg view sh root tr) = Inr [''.'']"
  proof
    assume a: "targetDirectories cfg = [] \<and> sh ''git diff --name-only --cached'' 1 = Threw e"
    then have "staged' = []" using st2 getStagedFiles_fails[of sh e cfg tr1] by simp
    then show "fst (determineTargetDirectories cfg view sh root tr) = Inr [''.'']"
      using a by (cases b) (simp_all add: determineTargetDirectories_def Let_def emp st2 try_catch_def)
  qed
  have 4: "targetDirectories cfg = [] \<and> fst (getStagedFiles cfg sh []) = Inr staged \<and>
      filter analysed (foldl add_target [] staged) = [] \<longrightarrow>
      fst (determineTargetDirectories cfg view sh root tr) = Inr [''.'']"
  proof
    assume a: "targetDirectories cfg = [] \<and> fst (getStagedFiles cfg sh []) = Inr staged \<and>
      filter analysed (foldl add_target [] staged) = []"
    obtain tr0 where "getStagedFiles cfg sh [] = (Inr staged', tr0)" using st by blast
    with a have "staged' = staged" by simp
    then show "fst (determineTargetDirectories cfg view sh root tr) = Inr [''.'']"
      using a by (cases b) (simp_all add: determineTargetDirectories_def Let_def emp st2 try_catch_def)
  qed
  from 1 2 3 4 show ?thesis by blast
qed

theorem resolver_never_raises_witness:
  "fst (determineTargetDirectories (sample_config\<lparr>targetDirectories := [''apps/backend'']\<rparr>)
          sample_view (\<lambda>command attempt. Completed []) ''/repo'' []) = Inr [''apps/backend''] \<and>
   fst (determineTargetDirectories sample_config sample_view
          (\<lambda>command attempt. Threw (ExecError ''128'' ''not a git repository'')) ''/repo'' [])
     = Inr [''.''] \<and>
   fst (getStagedFiles sample_config
          (\<lambda>command attempt. Completed (''dist/bundle.js'' @ [CHR 0x0A])) [])
     = Inr [''dist/bundle.js''] \<and>
   filter analysed (foldl add_target [] [''dist/bundle.js'']) = [] \<and>
   fst (determineTargetDirectories sample_config sample_view
          (\<lambda>command attempt. Completed (''dist/bundle.js'' @ [CHR 0x0A])) ''/repo'' [])
     = Inr [''.'']"
  using
    resolver_never_raises[of "sample_config\<lparr>targetDirectories := [''apps/backend'']\<rparr>"
      sample_view "\<lambda>command attempt. Completed []" "''/repo''" "[]"]
    resolver_never_raises[of sample_config sample_view
      "\<lambda>command attempt. Threw (ExecError ''128'' ''not a git repository'')" "''/repo''" "[]"
      "ExecError ''128'' ''not a git repository''"]
    resolver_never_raises[of sample_config sample_view
      "\<lambda>command attempt. Completed (''dist/bundle.js'' @ [CHR 0x0A])" "''/repo''" "[]" _
      "[''dist/bundle.js'']"]
  by (simp add: sample_config_def getStagedFiles_def executeCommand_once try_catch_def
        trim_def is_space_def startsWith_def add_target_def set_add_def dirname_def
        analysed_def excludedDirs_def)

section \<open>Properties of the handoff store\<close>

lemma load_total: "\<exists>v w'. loadCommitMetadata se w = (Inr v, w')"
  by (auto simp: loadCommitMetadata_def try_catch_def split: option.splits)

text \<open>
  Claim C5. In separate-commit mode, when the operating system lets the file be written
  and read and the runtime's JSON functions round-trip the metadata object \<open>m\<close> that
  \<^verbatim>\<open>saveCommitMetadata\<close> builds, loading after saving yields \<open>m\<close>; more generally
  loading a file that holds the serialisation of any such value \<open>v\<close> yields \<open>v\<close>. After
  \<^verbatim>\<open>cleanupMetadata\<close>, when the removal is not refused, the file is gone and loading
  yields \<^verbatim>\<open>null\<close>. Loading never raises: it always returns a value, and that value is
  \<^verbatim>\<open>null\<close> when the file is missing and when its content does not parse.
\<close>

theorem handoff_round_trip:
  "(createSeparateCommits cfg \<and> \<not> write_refused se \<and> \<not> read_refused se \<and>
      m = CommitMetadata now (readmeCommitMessage cfg) True \<and>
      json_parse se (json_stringify se m) = Some m \<longrightarrow>
    fst (loadCommitMetadata se (saveCommitMetadata cfg se now w)) = Inr m) \<and>
   (metadata_file w = Some (json_stringify se v) \<and> \<not> read_refused se \<and>
      json_parse se (json_stringify se v) = Some v \<longrightarrow>
    loadCommitMetadata se w = (Inr v, w)) \<and>
   (\<not> unlink_refused se \<longrightarrow>
    metadata_file (cleanupMetadata se w) = None \<and>
    fst (loadCommitMetadata se (cleanupMetadata se w)) = Inr JNull) \<and>
   (\<exists>r. fst (loadCommitMetadata se w) = Inr r) \<and>
   (metadata_file w = None \<longrightarrow> loadCommitMetadata se w = (Inr JNull, w)) \<and>
   (metadata_file w = Some content \<and> json_parse se content = None \<longrightarrow>
    fst (loadCommitMetadata se w) = Inr JNull)"
  by (auto simp: loadCommitMetadata_def saveCommitMetadata_def cleanupMetadata_def try_catch_def
        Let_def log_def split: option.splits)

theorem handoff_round_trip_witness:
  "createSeparateCommits sample_config \<and> \<not> write_refused sample_store \<and>
   \<not> read_refused sample_store \<and> \<not> unlink_refused sample_store \<and>
   json_parse sample_store (json_stringify sample_store sample_metadata) = Some sample_metadata \<and>
   fst (loadCommitMetadata sample_store
          (saveCommitMetadata sample_config sample_store ''2026-01-01T00:00:00.000Z''
             \<lparr>metadata_file = None, trace = []\<rparr>)) = Inr sample_metadata \<and>
   fst (loadCommitMetadata sample_store
          (cleanupMetadata sample_store
             (saveCommitMetadata sample_config sample_store ''2026-01-01T00:00:00.000Z''
                \<lparr>metadata_file = None, trace = []\<rparr>))) = Inr JNull \<and>
   loadCommitMetadata sample_store \<lparr>metadata_file = None, trace = []\<rparr>
     = (Inr JNull, \<lparr>metadata_file = None, trace = []\<rparr>) \<and>
   json_parse sample_store ''{ not json'' = None \<and>
   fst (loadCommitMetadata sample_store \<lparr>metadata_file = Some ''{ not json'', trace = []\<rparr>)
     = Inr JNull"
  using
    handoff_round_trip[where cfg = sample_config and se = sample_store and m = sample_metadata
      and now = "''2026-01-01T00:00:00.000Z''" and w = "\<lparr>metadata_file = None, trace = []\<rparr>"]
    handoff_round_trip[where se = sample_store
      and w = "saveCommitMetadata sample_config sample_store ''2026-01-01T00:00:00.000Z''
         \<lparr>metadata_file = None, trace = []\<rparr>"]
    handoff_round_trip[where se = sample_store
      and w = "\<lparr>metadata_file = Some ''{ not json'', trace = []\<rparr>"
      and content = "''{ not json''"]
  by (simp add: sample_config_def sample_store_def sample_metadata_def)

section \<open>Properties of phase B\<close>

lemma commands_append [simp]: "commands (xs @ ys) = commands xs @ commands ys"
  by (induction xs rule: commands.induct) auto

lemma exec_once:
  "exec sh cmd t (Suc 0) w =
     (case sh cmd (Suc 0) of
        Completed out \<Rightarrow> (Inr out, w\<lparr>trace := trace w @ [Exec cmd t]\<rparr>)
      | Threw e \<Rightarrow>
          (Inl (CommandFailed (Suc 0) (err_message e)), w\<lparr>trace := trace w @ [Exec cmd t, Log WARN]\<rparr>))"
  by (simp add: exec_def executeCommand_once split: exec_result.splits)

lemma has_total: "\<exists>b. hasLlmReadmeFiles root mi w = (Inr b, w) \<or>
   (b = False \<and> hasLlmReadmeFiles root mi w = (Inr False, log WARN w))"
  by (auto simp: hasLlmReadmeFiles_def try_catch_def Let_def split: option.splits node.splits)

text \<open>What \<^verbatim>\<open>commitLlmReadmeFiles\<close> does once the guard has found artifacts.\<close>

lemma commit_cases:
  assumes "hasLlmReadmeFiles root mi w = (Inr True, w)"
  shows "commitLlmReadmeFiles sh root mi metadata w =
    (case sh ''git add master-index/'' (Suc 0) of
       Threw e \<Rightarrow>
         (Inr False, w\<lparr>trace := trace w @ [Exec ''git add master-index/'' 60000, Log WARN, Log ERROR]\<rparr>)
     | Completed added \<Rightarrow>
        (case sh ''git diff --name-only --cached master-index/'' (Suc 0) of
           Threw e \<Rightarrow>
             (Inr False, w\<lparr>trace := trace w @
               [Exec ''git add master-index/'' 60000,
                Exec ''git diff --name-only --cached master-index/'' 30000, Log WARN, Log ERROR]\<rparr>)
         | Completed staged \<Rightarrow>
             if trim staged = [] then
               (Inr False, w\<lparr>trace := trace w @
                 [Exec ''git add master-index/'' 60000,
                  Exec ''git diff --name-only --cached master-index/'' 30000, Log ERROR]\<rparr>)
             else
               (case template_string (get_property metadata ''commitMessage'') of
                  Inl err \<Rightarrow>
                    (Inr False, w\<lparr>trace := trace w @
                      [Exec ''git add master-index/'' 60000,
                       Exec ''git diff --name-only --cached master-index/'' 30000,
                       Log SUCCESS, Log ERROR]\<rparr>)
                | Inr message \<Rightarrow>
                    (case sh (commit_command message) (Suc 0) of
                       Threw e \<Rightarrow>
                         (Inr False, w\<lparr>trace := trace w @
                           [Exec ''git add master-index/'' 60000,
                            Exec ''git diff --name-only --cached master-index/'' 30000,
                            Log SUCCESS, Exec (commit_command message) 60000,
                            Log WARN, Log ERROR]\<rparr>)
                     | Completed c \<Rightarrow>
                         (Inr True, w\<lparr>trace := trace w @
                           [Exec ''git add master-index/'' 60000,
                            Exec ''git diff --name-only --cached master-index/'' 30000,
                            Log SUCCESS, Exec (commit_command message) 60000,
                            Log SUCCESS]\<rparr>)))))"
  using assms
  by (auto simp: commitLlmReadmeFiles_def exec_once try_catch_def post_timeout_def log_def
        Let_def trim_def split: exec_result.splits sum.splits)

lemma load_shape:
  "\<exists>v xs. loadCommitMetadata se w = (Inr v, w\<lparr>trace := trace w @ xs\<rparr>) \<and>
     \<not> list_ex is_exit xs \<and> commands xs = []"
proof (cases "loadCommitMetadata se w = (fst (loadCommitMetadata se w), w)")
  case True
  moreover obtain v where "fst (loadCommitMetadata se w) = Inr v"
    using load_total[of se w] by auto
  ultimately have "loadCommitMetadata se w = (Inr v, w\<lparr>trace := trace w @ []\<rparr>)" by simp
  then show ?thesis by (intro exI[of _ v] exI[of _ "[]"]) simp
next
  case False
  then have "loadCommitMetadata se w = (Inr JNull, w\<lparr>trace := trace w @ [Log ERROR]\<rparr>)"
    by (auto simp: loadCommitMetadata_def try_catch_def log_def split: option.splits if_splits)
  then show ?thesis by (intro exI[of _ JNull] exI[of _ "[Log ERROR]"]) simp
qed

lemma commit_shape:
  "\<exists>b xs. commitLlmReadmeFiles sh root mi metadata w = (Inr b, w\<lparr>trace := trace w @ xs\<rparr>) \<and>
     \<not> list_ex is_exit xs"
proof -
  consider (yes) "hasLlmReadmeFiles root mi w = (Inr True, w)"
    | (no) "hasLlmReadmeFiles root mi w = (Inr False, w)"
    | (err) "hasLlmReadmeFiles root mi w = (Inr False, log WARN w)"
    using has_total[of root mi w] by (metis (full_types))
  then show ?thesis
  proof cases
    case yes
    show ?thesis
      unfolding commit_cases[OF yes]
      by (auto split: exec_result.splits sum.splits intro!: exI)
  next
    case no
    then have "commitLlmReadmeFiles sh root mi metadata w = (Inr True, w\<lparr>trace := trace w @ []\<rparr>)"
      by (simp add: commitLlmReadmeFiles_def try_catch_def)
    then show ?thesis by (intro exI[of _ True] exI[of _ "[]"]) simp
  next
    case err
    then have "commitLlmReadmeFiles sh root mi metadata w = (Inr True, w\<lparr>trace := trace w @ [Log WARN]\<rparr>)"
      by (simp add: commitLlmReadmeFiles_def try_catch_def log_def)
    then show ?thesis by (intro exI[of _ True] exI[of _ "[Log WARN]"]) simp
  qed
qed

lemma main_caught_shape:
  "\<exists>xs. main_caught se sh root mi w = (Inr (), w\<lparr>trace := trace w @ xs\<rparr>) \<and> \<not> list_ex is_exit xs"
proof -
  obtain v xs where l: "loadCommitMetadata se w = (Inr v, w\<lparr>trace := trace w @ xs\<rparr>)"
      "\<not> list_ex is_exit xs"
    using load_shape by blast
  let ?w1 = "w\<lparr>trace := trace w @ xs\<rparr>"
  obtain b ys where c: "commitLlmReadmeFiles sh root mi v ?w1 = (Inr b, ?w1\<lparr>trace := trace ?w1 @ ys\<rparr>)"
      "\<not> list_ex is_exit ys"
    using commit_shape by blast
  show ?thesis
  proof (cases "truthy v \<and> truthy_property (get_property v ''hasLlmReadmeFiles'')")
    case False
    then have "main_caught se sh root mi w = (Inr (), w\<lparr>trace := trace w @ xs\<rparr>)"
      by (auto simp: main_caught_def main_try_def l try_catch_def)
    with l(2) show ?thesis by blast
  next
    case True
    show ?thesis
    proof (cases b)
      case True
      with \<open>truthy v \<and> _\<close> have "main_caught se sh root mi w
          = (Inr (), w\<lparr>trace := trace w @ (xs @ ys @ [Log SUCCESS])\<rparr>)"
        by (simp add: main_caught_def main_try_def l c try_catch_def log_def)
      moreover have "\<not> list_ex is_exit (xs @ ys @ [Log SUCCESS])" using l(2) c(2) by simp
      ultimately show ?thesis by blast
    next
      case False
      with \<open>truthy v \<and> _\<close> have "main_caught se sh root mi w
          = (Inr (), w\<lparr>trace := trace w @ (xs @ ys @ [Log WARN])\<rparr>)"
        by (simp add: main_caught_def main_try_def l c try_catch_def log_def)
      moreover have "\<not> list_ex is_exit (xs @ ys @ [Log WARN])" using l(2) c(2) by simp
      ultimately show ?thesis by blast
    qed
  qed
qed

lemma cleanup_exact:
  "trace (cleanupMetadata se w1) =
     trace w1 @ CleanupMetadata #
       (if metadata_file w1 \<noteq> None \<and> unlink_refused se then [Log WARN] else []) \<and>
   metadata_file (cleanupMetadata se w1) = (if unlink_refused se then metadata_file w1 else None)"
  by (auto simp: cleanupMetadata_def try_catch_def log_def Let_def split: option.splits)

lemmas sample_defs = sample_index_def sample_shell_def blank_shell_def pending_world_def
  idle_world_def sample_store_def sample_metadata_def CommitMetadata_def refusing_store_def
  unprintable_metadata_def unprintable_store_def

lemmas phase_b_defs = main_def main_caught_def main_try_def loadCommitMetadata_def
  commitLlmReadmeFiles_def hasLlmReadmeFiles_def exec_once try_catch_def log_def
  truthy_property_def template_string_def post_timeout_def cleanupMetadata_def exit_def
  post_commit_process_def after_main_def post_signal_handler_def post_rejection_handler_def
  index_file_name_def plain_json_name_def endsWith_def startsWith_def word_char_def trim_def
  is_space_def path_join_def




text \<open>
  Claim C8, as amended. \<^verbatim>\<open>main\<close> never raises, and the last thing it does, on each
  of its paths, is to call \<^verbatim>\<open>cleanupMetadata\<close>; it never leaves the process itself.
  \<^verbatim>\<open>cleanupMetadata\<close> removes the metadata file unless the operating system refuses
  the removal; then it logs a warning and the file stays. After \<^verbatim>\<open>main\<close>, with no
  signal waiting, the process leaves with status 0 and does nothing else; the handler of
  a waiting signal calls \<^verbatim>\<open>cleanupMetadata\<close> and then leaves with status 0; and the
  handler of a rejected \<^verbatim>\<open>main()\<close>, whatever the state it is entered in, logs an
  error, calls \<^verbatim>\<open>cleanupMetadata\<close> and then leaves with status 0. So in every run of
  the script \<^verbatim>\<open>cleanupMetadata\<close> is called before the one exit, which has status 0,
  and the metadata file is gone at the exit exactly when the removal is not refused.
\<close>

theorem cleanup_before_exit:
  "(\<exists>xs. main se sh root mi w = (Inr (), cleanupMetadata se (w\<lparr>trace := trace w @ xs\<rparr>)) \<and>
         \<not> list_ex is_exit xs) \<and>
   trace (cleanupMetadata se w1) =
     trace w1 @ CleanupMetadata #
       (if metadata_file w1 \<noteq> None \<and> unlink_refused se then [Log WARN] else []) \<and>
   metadata_file (cleanupMetadata se w1) = (if unlink_refused se then metadata_file w1 else None) \<and>
   after_main se (Inr (), w1) None = w1\<lparr>trace := trace w1 @ [Exit 0]\<rparr> \<and>
   trace (after_main se (Inr (), w1) (Some sig)) =
     trace w1 @ CleanupMetadata #
       (if metadata_file w1 \<noteq> None \<and> unlink_refused se then [Log WARN] else []) @ [Exit 0] \<and>
   metadata_file (after_main se (Inr (), w1) (Some sig))
     = (if unlink_refused se then metadata_file w1 else None) \<and>
   trace (after_main se (Inl err, w1) waiting) =
     trace w1 @ Log ERROR # CleanupMetadata #
       (if metadata_file w1 \<noteq> None \<and> unlink_refused se then [Log WARN] else []) @ [Exit 0] \<and>
   metadata_file (after_main se (Inl err, w1) waiting)
     = (if unlink_refused se then metadata_file w1 else None) \<and>
   (\<exists>before after.
      trace (post_commit_process se sh root mi waiting w)
        = trace w @ before @ CleanupMetadata # after @ [Exit 0] \<and>
      \<not> list_ex is_exit (before @ after)) \<and>
   metadata_file (post_commit_process se sh root mi waiting w)
     = (if unlink_refused se then metadata_file w else None)"
proof -
  obtain xs where m: "main_caught se sh root mi w = (Inr (), w\<lparr>trace := trace w @ xs\<rparr>)"
      "\<not> list_ex is_exit xs"
    using main_caught_shape by blast
  let ?w1 = "w\<lparr>trace := trace w @ xs\<rparr>"
  let ?w2 = "cleanupMetadata se ?w1"
  have mn: "main se sh root mi w = (Inr (), ?w2)" by (simp add: main_def m)
  have 1: "\<exists>xs. main se sh root mi w = (Inr (), cleanupMetadata se (w\<lparr>trace := trace w @ xs\<rparr>)) \<and>
         \<not> list_ex is_exit xs"
    using mn m(2) by blast
  have 2: "after_main se (Inr (), w1) None = w1\<lparr>trace := trace w1 @ [Exit 0]\<rparr>"
    "trace (after_main se (Inr (), w1) (Some sig)) =
       trace w1 @ CleanupMetadata #
         (if metadata_file w1 \<noteq> None \<and> unlink_refused se then [Log WARN] else []) @ [Exit 0]"
    "metadata_file (after_main se (Inr (), w1) (Some sig))
       = (if unlink_refused se then metadata_file w1 else None)"
    "trace (after_main se (Inl err, w1) waiting) =
       trace w1 @ Log ERROR # CleanupMetadata #
         (if metadata_file w1 \<noteq> None \<and> unlink_refused se then [Log WARN] else []) @ [Exit 0]"
    "metadata_file (after_main se (Inl err, w1) waiting)
       = (if unlink_refused se then metadata_file w1 else None)"
    using cleanup_exact[of se w1] cleanup_exact[of se "log ERROR w1"]
    by (simp_all add: after_main_def post_signal_handler_def post_rejection_handler_def exit_def
          log_def)
  have t2: "trace ?w2 = trace w @ xs @ CleanupMetadata #
       (if metadata_file w \<noteq> None \<and> unlink_refused se then [Log WARN] else [])"
    "metadata_file ?w2 = (if unlink_refused se then metadata_file w else None)"
    using cleanup_exact[of se ?w1] by simp_all
  have 3: "(\<exists>before after.
      trace (post_commit_process se sh root mi waiting w)
        = trace w @ before @ CleanupMetadata # after @ [Exit 0] \<and>
      \<not> list_ex is_exit (before @ after)) \<and>
   metadata_file (post_commit_process se sh root mi waiting w)
     = (if unlink_refused se then metadata_file w else None)"
  proof (cases waiting)
    case None
    have "trace (post_commit_process se sh root mi waiting w)
        = trace w @ xs @ CleanupMetadata #
            (if metadata_file w \<noteq> None \<and> unlink_refused se then [Log WARN] else []) @ [Exit 0]"
      by (simp add: None post_commit_process_def mn after_main_def exit_def t2)
    moreover have "\<not> list_ex is_exit
       (xs @ (if metadata_file w \<noteq> None \<and> unlink_refused se then [Log WARN] else []))"
      using m(2) by simp
    moreover have "metadata_file (post_commit_process se sh root mi waiting w)
       = (if unlink_refused se then metadata_file w else None)"
      by (simp add: None post_commit_process_def mn after_main_def exit_def t2)
    ultimately show ?thesis by blast
  next
    case (Some s)
    have c: "trace (cleanupMetadata se ?w2) = trace ?w2 @ CleanupMetadata #
         (if metadata_file ?w2 \<noteq> None \<and> unlink_refused se then [Log WARN] else [])"
      "metadata_file (cleanupMetadata se ?w2) = (if unlink_refused se then metadata_file ?w2 else None)"
      using cleanup_exact[of se ?w2] by simp_all
    have "trace (post_commit_process se sh root mi waiting w)
        = trace w @ xs @ CleanupMetadata #
            ((if metadata_file w \<noteq> None \<and> unlink_refused se then [Log WARN] else []) @
             CleanupMetadata #
             (if metadata_file ?w2 \<noteq> None \<and> unlink_refused se then [Log WARN] else [])) @ [Exit 0]"
      by (simp add: Some post_commit_process_def mn after_main_def post_signal_handler_def
            exit_def c(1) t2(1))
    moreover have "\<not> list_ex is_exit
       (xs @ ((if metadata_file w \<noteq> None \<and> unlink_refused se then [Log WARN] else []) @
             CleanupMetadata #
             (if metadata_file ?w2 \<noteq> None \<and> unlink_refused se then [Log WARN] else [])))"
      using m(2) by simp
    moreover have "metadata_file (post_commit_process se sh root mi waiting w)
       = (if unlink_refused se then metadata_file w else None)"
      by (simp add: Some post_commit_process_def mn after_main_def post_signal_handler_def
            exit_def c(2) t2(2))
    ultimately show ?thesis by blast
  qed
  from 1 2 3 cleanup_exact[of se w1] show ?thesis by blast
qed

theorem cleanup_before_exit_witness:
  "post_commit_process sample_store sample_shell ''/repo'' sample_index None pending_world =
     \<lparr>metadata_file = None,
      trace = [Exec ''git add master-index/'' 60000,
               Exec ''git diff --name-only --cached master-index/'' 30000,
               Log SUCCESS,
               Exec (commit_command ''Generated master index'') 60000,
               Log SUCCESS, Log SUCCESS,
               CleanupMetadata, Exit 0]\<rparr> \<and>
   post_commit_process sample_store sample_shell ''/repo'' None (Some SIGTERM) pending_world =
     \<lparr>metadata_file = None,
      trace = [Log SUCCESS, CleanupMetadata, CleanupMetadata, Exit 0]\<rparr> \<and>
   after_main sample_store (Inl UnexpectedError, pending_world) None =
     \<lparr>metadata_file = None, trace = [Log ERROR, CleanupMetadata, Exit 0]\<rparr>"
  using
    cleanup_before_exit[where se = sample_store and sh = sample_shell and root = "''/repo''"
      and mi = sample_index and waiting = None and w = pending_world and ?w1.0 = pending_world]
    cleanup_before_exit[where se = sample_store and sh = sample_shell and root = "''/repo''"
      and mi = None and waiting = "Some SIGTERM" and w = pending_world and ?w1.0 = pending_world]
    cleanup_before_exit[where se = sample_store and waiting = None and ?w1.0 = pending_world
      and err = UnexpectedError]
  by (simp add: sample_defs phase_b_defs)

text \<open>
  Claim C8 as stated fails in its conclusion that stale metadata never survives a cycle:
  when the operating system refuses the removal, \<^verbatim>\<open>cleanupMetadata\<close> catches the
  error and logs a warning, and the process exits with the metadata file still there,
  with or without a signal.
\<close>

theorem refused_unlink_leaves_metadata:
  "unlink_refused refusing_store \<and>
   post_commit_process refusing_store sample_shell ''/repo'' sample_index None pending_world =
     \<lparr>metadata_file = Some ''sample metadata'',
      trace = [Exec ''git add master-index/'' 60000,
               Exec ''git diff --name-only --cached master-index/'' 30000,
               Log SUCCESS,
               Exec (commit_command ''Generated master index'') 60000,
               Log SUCCESS, Log SUCCESS,
               CleanupMetadata, Log WARN, Exit 0]\<rparr> \<and>
   post_commit_process refusing_store sample_shell ''/repo'' sample_index (Some SIGINT)
       pending_world =
     \<lparr>metadata_file = Some ''sample metadata'',
      trace = [Exec ''git add master-index/'' 60000,
               Exec ''git diff --name-only --cached master-index/'' 30000,
               Log SUCCESS,
               Exec (commit_command ''Generated master index'') 60000,
               Log SUCCESS, Log SUCCESS,
               CleanupMetadata, Log WARN, CleanupMetadata, Log WARN, Exit 0]\<rparr>"
  by (simp add: sample_defs phase_b_defs)

text \<open>
  Claim C2 says that both scripts leave with status 0 on every path. The post-commit
  script does. The pre-commit script does not: its handlers for \<^verbatim>\<open>SIGINT\<close> and
  \<^verbatim>\<open>SIGTERM\<close>, and its handler for a rejected \<^verbatim>\<open>main()\<close>, call
  \<^verbatim>\<open>process.exit(1)\<close>.
\<close>

theorem pre_commit_handlers_exit_with_failure:
  "trace (pre_signal_handler SIGINT w) = trace w @ [Exit 1] \<and>
   trace (pre_signal_handler SIGTERM w) = trace w @ [Exit 1] \<and>
   trace (pre_rejection_handler w) = trace w @ [Log ERROR, Exit 1] \<and>
   last (trace (post_signal_handler se SIGINT w)) = Exit 0 \<and>
   last (trace (post_signal_handler se SIGTERM w)) = Exit 0 \<and>
   last (trace (post_rejection_handler se w)) = Exit 0"
  by (simp add: pre_signal_handler_def pre_rejection_handler_def post_signal_handler_def
        post_rejection_handler_def exit_def log_def)

end
